theory Spec2Isabelle
  imports Complex_Main "HOL-Library.Multiset"
begin

section \<open>Data model of \<^verbatim>\<open>server/renderer.ts\<close>\<close>

text \<open>
  The renderer resolves a request into a list of route matches, loads one SSR module
  per match, runs the render callback and rewrites the static template.  Everything the
  file imports from elsewhere (the URL pattern engine, the HTML rewriter, the JSON
  built-ins, the file system) enters the model as data or as a parameter.

  Records keep the field names of the source.  Where two objects of the source share a
  field name, the less central one carries its owner in front: \<open>req_url\<close> and
  \<open>req_headers\<close> of a request, \<open>mod_data\<close> of an imported module, \<open>meta_filename\<close> and
  \<open>pattern_pathname\<close> (for \<^verbatim>\<open>meta.pattern.pathname\<close>) of a route, \<open>error_status\<close>,
  \<open>redirect_status\<close> and \<open>redirect_headers\<close> of a module's outcome.
\<close>

subsection \<open>JavaScript values\<close>

text \<open>
  A JavaScript number is a double.  The renderer only compares numbers and takes their
  minimum, which on doubles agrees with the order of the rationals they denote, so a
  finite number is modelled by its value.
\<close>

datatype number = NaN | NegInfinity | Finite rat | PosInfinity

datatype js_value =
    Undefined
  | Null
  | Boolean bool
  | Number number
  | String string
  | Array "js_value list"
  | Object "(string \<times> js_value) list"

text \<open>
  A thrown value, by what the catch clause does with it: it evaluates the template
  \<^verbatim>\<open>${error.stack}\<close>.  For most values that gives a text: the stack of an error, the text
  \<^verbatim>\<open>undefined\<close> for a value without a stack.  For a thrown \<^verbatim>\<open>undefined\<close> or \<^verbatim>\<open>null\<close> reading
  the property raises a \<^verbatim>\<open>TypeError\<close>, and a stack that does not convert to a string
  raises as well; the value then carries what is raised.
\<close>

datatype Thrown = Stack_prints string | Stack_raises Thrown

text \<open>\<^verbatim>\<open>Array.prototype.join\<close>.\<close>

fun join :: "string \<Rightarrow> string list \<Rightarrow> string" where
  "join sep [] = []"
| "join sep [x] = x"
| "join sep (x # y # ys) = x @ sep @ join sep (y # ys)"

text \<open>
  \<^verbatim>\<open>Promise.all\<close> over already settled outcomes: the list of results, or a rejection.
  Which rejection wins is a matter of timing in the source; the model takes the first in
  list order.
\<close>

fun Promise_all :: "(Thrown + 'a) list \<Rightarrow> Thrown + 'a list" where
  "Promise_all [] = Inr []"
| "Promise_all (Inl e # ps) = Inl e"
| "Promise_all (Inr x # ps) = (case Promise_all ps of Inl e \<Rightarrow> Inl e | Inr xs \<Rightarrow> Inr (x # xs))"

subsection \<open>Elements of the template and the rewriter's edits\<close>

text \<open>
  The template as the streaming rewriter presents it to element handlers: the sequence
  of its start tags in document order.  A handler edits the element it visits through
  the calls of the rewriter's element interface; the renderer's own handlers use
  \<^verbatim>\<open>before\<close>, \<^verbatim>\<open>after\<close>, \<^verbatim>\<open>append\<close>, \<^verbatim>\<open>replace\<close>, \<^verbatim>\<open>remove\<close> and \<^verbatim>\<open>setAttribute\<close>.  The content
  edits are recorded on the element in call order.  How the engine turns the edited
  elements into bytes is its own business.
\<close>

datatype mutation =
    Before string
  | After string
  | Prepend string
  | Append string
  | Replace string
  | SetInnerContent string
  | Remove
  | RemoveAndKeepContent

record Element =
  tagName :: string
  attributes :: "(string \<times> string) list"
  mutations :: "mutation list"

type_synonym StartTag = "string \<times> (string \<times> string) list"

definition element_of :: "StartTag \<Rightarrow> Element" where
  "element_of t = \<lparr>tagName = fst t, attributes = snd t, mutations = []\<rparr>"

definition before :: "Element \<Rightarrow> string \<Rightarrow> Element" where
  "before el h = el\<lparr>mutations := mutations el @ [Before h]\<rparr>"

definition after :: "Element \<Rightarrow> string \<Rightarrow> Element" where
  "after el h = el\<lparr>mutations := mutations el @ [After h]\<rparr>"

definition append_content :: "Element \<Rightarrow> string \<Rightarrow> Element" where
  "append_content el h = el\<lparr>mutations := mutations el @ [Append h]\<rparr>"

definition replace :: "Element \<Rightarrow> string \<Rightarrow> Element" where
  "replace el h = el\<lparr>mutations := mutations el @ [Replace h]\<rparr>"

definition remove :: "Element \<Rightarrow> Element" where
  "remove el = el\<lparr>mutations := mutations el @ [Remove]\<rparr>"

definition getAttribute :: "Element \<Rightarrow> string \<Rightarrow> string option" where
  "getAttribute el name = map_of (attributes el) name"

fun set_assoc :: "string \<Rightarrow> string \<Rightarrow> (string \<times> string) list \<Rightarrow> (string \<times> string) list" where
  "set_assoc k v [] = [(k, v)]"
| "set_assoc k v ((k', v') # kvs) = (if k' = k then (k, v) # kvs else (k', v') # set_assoc k v kvs)"

definition setAttribute :: "Element \<Rightarrow> string \<Rightarrow> string \<Rightarrow> Element" where
  "setAttribute el name v = el\<lparr>attributes := set_assoc name v (attributes el)\<rparr>"

text \<open>
  A handler supplied by the caller is taken by the calls it makes on the element it is
  shown: content edits, and changes of attributes.  A caller's handler that raises is
  not modelled.
\<close>

datatype edit = Content mutation | SetAttribute string string | RemoveAttribute string

fun apply_edit :: "Element \<Rightarrow> edit \<Rightarrow> Element" where
  "apply_edit el (Content m) = el\<lparr>mutations := mutations el @ [m]\<rparr>"
| "apply_edit el (SetAttribute name v) = setAttribute el name v"
| "apply_edit el (RemoveAttribute name) =
     el\<lparr>attributes := filter (\<lambda>(k, v). k \<noteq> name) (attributes el)\<rparr>"

type_synonym HTMLRewriterHandlers = "Element \<Rightarrow> edit list"

definition custom_element :: "HTMLRewriterHandlers \<Rightarrow> Element \<Rightarrow> Element" where
  "custom_element handlers el = foldl apply_edit el (handlers el)"

subsection \<open>URLs, headers, requests, responses\<close>

record URL =
  host :: string
  pathname :: string
  search :: string

type_synonym Headers = "(string \<times> string) list"

definition ascii_lower :: "char \<Rightarrow> char" where
  "ascii_lower c =
     (case map_of (zip ''ABCDEFGHIJKLMNOPQRSTUVWXYZ'' ''abcdefghijklmnopqrstuvwxyz'') c of
        Some l \<Rightarrow> l
      | None \<Rightarrow> c)"

text \<open>\<^verbatim>\<open>headers.has(name)\<close>: header names compare without regard to case.\<close>

definition headers_has :: "Headers \<Rightarrow> string \<Rightarrow> bool" where
  "headers_has hs name = (map ascii_lower name \<in> set (map (\<lambda>(k, v). map ascii_lower k) hs))"

text \<open>
  \<^verbatim>\<open>headers.get(name)\<close>: the values under that name, in order, joined by a comma and a
  space; \<open>None\<close> (for \<^verbatim>\<open>null\<close>) when there is none.
\<close>

definition headers_get :: "Headers \<Rightarrow> string \<Rightarrow> string option" where
  "headers_get hs name =
     (case filter (\<lambda>(k, v). map ascii_lower k = map ascii_lower name) hs of
        [] \<Rightarrow> None
      | kvs \<Rightarrow> Some (join '', '' (map snd kvs)))"

definition headers_append :: "Headers \<Rightarrow> string \<Rightarrow> string \<Rightarrow> Headers" where
  "headers_append hs name v = hs @ [(name, v)]"

record Request =
  req_url :: URL
  req_headers :: Headers

type_synonym FetchContext = "(string \<times> js_value) list"

text \<open>
  A response body: none (\<^verbatim>\<open>null\<close>), a text, or the document the rewriter produced
  (the concatenated chunks), kept as the edited elements.
\<close>

datatype Body = NoBody | Text string | Document "Element list"

record Response =
  status :: nat
  headers :: Headers
  body :: Body

subsection \<open>Routes and route modules\<close>

text \<open>
  A \<^verbatim>\<open>URLPatternResult\<close>, of which the renderer reads \<^verbatim>\<open>pathname.input\<close> and
  \<^verbatim>\<open>pathname.groups\<close>.
\<close>

record URLPatternResult =
  pathname_input :: string
  pathname_groups :: "(string \<times> string) list"

text \<open>What a data fetcher hands back, once awaited: a \<^verbatim>\<open>Response\<close>, anything else, or a failure.\<close>

datatype FetcherResult = Returns_Response Response | Returns_other js_value | Throws Thrown

text \<open>
  \<^verbatim>\<open>mod.data\<close> when it is a plain object: its \<^verbatim>\<open>cacheTtl\<close> property and its \<^verbatim>\<open>get\<close>
  property when that is a function.
\<close>

record DataConfig =
  cacheTtl :: js_value
  get :: "(Request \<Rightarrow> FetchContext \<Rightarrow> FetcherResult) option"

record Module =
  default :: js_value
  mod_data :: "DataConfig option"

record RouteMeta =
  pattern_pathname :: string
  nesting :: bool
  meta_filename :: string

text \<open>
  A route \<^verbatim>\<open>[pattern, imp, meta]\<close>.  The pattern is given by what \<^verbatim>\<open>pattern.exec\<close> answers
  for a host and a pathname, the loader by the outcome of awaiting it.
\<close>

record Route =
  pattern :: "string \<Rightarrow> string \<Rightarrow> URLPatternResult option"
  imp :: "Thrown + Module"
  meta :: RouteMeta

type_synonym RouteMatch = "URLPatternResult \<times> Route"

record ErrorInfo =
  message :: string
  error_status :: nat

record Redirect =
  redirect_headers :: Headers
  redirect_status :: nat

record SSRModule =
  url :: URL
  filename :: string
  defaultExport :: js_value
  dataCacheTtl :: js_value
  data :: "js_value option"
  error :: "ErrorInfo option"
  redirect :: "Redirect option"

subsection \<open>What the renderer takes from its platform\<close>

record DepModule =
  specifier :: string
  inlineCSS :: bool

text \<open>
  The helpers of \<^verbatim>\<open>lib/\<close> and \<^verbatim>\<open>server/\<close> whose sources are not at hand, the built-ins and
  the file system, each by what it answers.  \<^verbatim>\<open>createStaticURLPatternResult\<close> is called
  with a host and a literal path, \<^verbatim>\<open>new URL\<close> with a path and the request's URL as its base.
\<close>

record Platform =
  createStaticURLPatternResult :: "string \<Rightarrow> string \<Rightarrow> URLPatternResult"
  splitPath :: "string \<Rightarrow> string list"
  new_URL :: "string \<Rightarrow> URL \<Rightarrow> Thrown + URL"
  appendUrlParams :: "URL \<Rightarrow> (string \<times> string) list \<Rightarrow> URL"
  JSON_parse :: "string \<Rightarrow> js_value option"
  JSON_stringify :: "js_value \<Rightarrow> string"
  Number_toString :: "number \<Rightarrow> string"
  serialize :: "Element list \<Rightarrow> string"
  lstat_mtime :: "Thrown + string option"
  alephPkgUri :: string
  toLocalPath :: "string \<Rightarrow> string"
  cleanPath :: "string \<Rightarrow> string"
  isLikelyHttpURL :: "string \<Rightarrow> bool"
  serverDependencyGraph :: "(string \<Rightarrow> DepModule list) option"
  readTextFile :: "string \<Rightarrow> Thrown + string"
  bundleCSS :: "string \<Rightarrow> string \<Rightarrow> bool \<Rightarrow> Thrown + string"
  unoGenerate :: "string \<Rightarrow> string \<Rightarrow> bool \<Rightarrow> Thrown + string"

section \<open>\<^verbatim>\<open>initSSR\<close>: route matching\<close>

text \<open>
  The inner loop of a matched nesting route: the first route of the table that matches
  the given pathname (the request's with \<^verbatim>\<open>/index\<close> appended).
\<close>

fun first_match :: "Route list \<Rightarrow> string \<Rightarrow> string \<Rightarrow> RouteMatch list" where
  "first_match [] h p = []"
| "first_match (r # rs) h p =
     (case pattern r h p of Some ret \<Rightarrow> [(ret, r)] | None \<Rightarrow> first_match rs h p)"

text \<open>
  The loop of an unmatched nesting route, \<^verbatim>\<open>for (let i = parts.length - 1; i > 0; i--)\<close>:
  the longest proper prefix of the path that the route's own pattern matches.
\<close>

fun ancestor_match :: "Route \<Rightarrow> string \<Rightarrow> string list \<Rightarrow> nat \<Rightarrow> RouteMatch list" where
  "ancestor_match route h parts 0 = []"
| "ancestor_match route h parts (Suc i) =
     (case pattern route h (''/'' @ join ''/'' (take (Suc i) parts)) of
        Some ret \<Rightarrow> [(ret, route)]
      | None \<Rightarrow> ancestor_match route h parts i)"

text \<open>The body of \<^verbatim>\<open>routes.forEach\<close>: the matches one route adds.\<close>

definition scan_route :: "Platform \<Rightarrow> Route list \<Rightarrow> URL \<Rightarrow> Route \<Rightarrow> RouteMatch list" where
  "scan_route P routes u route =
     (case pattern route (host u) (pathname u) of
        Some ret \<Rightarrow>
          (ret, route) #
          (if nesting (meta route) \<and> pattern_pathname (meta route) \<noteq> ''/_app''
           then first_match routes (host u) (pathname u @ ''/index'')
           else [])
      | None \<Rightarrow>
          if nesting (meta route)
          then (let parts = splitPath P (pathname u)
                in ancestor_match route (host u) parts (length parts - 1))
          else [])"

definition scan :: "Platform \<Rightarrow> Route list \<Rightarrow> URL \<Rightarrow> RouteMatch list" where
  "scan P routes u = concat (map (scan_route P routes u) routes)"

text \<open>Lines 259 to 266: the not-found fallback when no recorded match is a leaf.\<close>

definition not_found_fallback :: "Platform \<Rightarrow> Route list \<Rightarrow> URL \<Rightarrow> RouteMatch list \<Rightarrow> RouteMatch list" where
  "not_found_fallback P routes u matches =
     (if filter (\<lambda>(ret, route). \<not> nesting (meta route)) matches = []
      then (case find (\<lambda>route. pattern_pathname (meta route) = ''/_404'') routes of
              Some route \<Rightarrow> matches @ [(createStaticURLPatternResult P (host u) ''/_404'', route)]
            | None \<Rightarrow> matches)
      else matches)"

text \<open>Lines 267 to 275: the root layout is put in front of a list that is not empty.\<close>

definition root_layout :: "Platform \<Rightarrow> Route list \<Rightarrow> URL \<Rightarrow> RouteMatch list \<Rightarrow> RouteMatch list" where
  "root_layout P routes u matches =
     (case matches of
        [] \<Rightarrow> matches
      | (ret, r) # rest \<Rightarrow>
          if pathname_input ret \<noteq> ''/_app''
          then (case find (\<lambda>route. pattern_pathname (meta route) = ''/_app'') routes of
                  Some route \<Rightarrow> (createStaticURLPatternResult P (host u) ''/_app'', route) # matches
                | None \<Rightarrow> matches)
          else matches)"

text \<open>
  The match list \<^verbatim>\<open>initSSR\<close> maps over.  It is only built when the table is not empty;
  \<open>root_layout\<close> carries the test \<^verbatim>\<open>matches.length > 0\<close> as its first case.
\<close>

definition matchRoutes :: "Platform \<Rightarrow> Route list \<Rightarrow> URL \<Rightarrow> RouteMatch list" where
  "matchRoutes P routes u =
     (if routes \<noteq> []
      then root_layout P routes u (not_found_fallback P routes u (scan P routes u))
      else [])"

section \<open>\<^verbatim>\<open>initSSR\<close>: loading the modules\<close>

text \<open>\<^verbatim>\<open>await res.text()\<close> and \<^verbatim>\<open>await res.json()\<close> (\<open>None\<close> when parsing raises).\<close>

definition res_text :: "Platform \<Rightarrow> Response \<Rightarrow> string" where
  "res_text P res = (case body res of NoBody \<Rightarrow> [] | Text s \<Rightarrow> s | Document d \<Rightarrow> serialize P d)"

definition res_json :: "Platform \<Rightarrow> Response \<Rightarrow> js_value option" where
  "res_json P res = JSON_parse P (res_text P res)"

text \<open>Lines 292 to 310: what a \<^verbatim>\<open>Response\<close> from the fetcher does to the module.\<close>

definition resolve_response :: "Platform \<Rightarrow> Response \<Rightarrow> SSRModule \<Rightarrow> SSRModule" where
  "resolve_response P res ssrModule =
     (if status res \<ge> 400
      then ssrModule\<lparr>error := Some \<lparr>message = res_text P res, error_status = status res\<rparr>\<rparr>
      else if status res \<ge> 300
      then (if headers_has (headers res) ''Location''
            then ssrModule\<lparr>redirect :=
                   Some \<lparr>redirect_headers = headers res, redirect_status = status res\<rparr>\<rparr>
            else ssrModule\<lparr>error :=
                   Some \<lparr>message = ''Missing the `Location` header'', error_status = 400\<rparr>\<rparr>)
      else (case res_json P res of
              Some v \<Rightarrow> ssrModule\<lparr>data := Some v\<rparr>
            | None \<Rightarrow> ssrModule\<lparr>error :=
                   Some \<lparr>message = ''Data must be valid JSON'', error_status = 400\<rparr>\<rparr>))"

text \<open>Lines 276 to 313: the callback mapped over the matches.\<close>

definition loadModule :: "Platform \<Rightarrow> Request \<Rightarrow> FetchContext \<Rightarrow> RouteMatch \<Rightarrow> Thrown + SSRModule" where
  "loadModule P req ctx m =
     (case m of (ret, route) \<Rightarrow>
       (case imp route of
          Inl e \<Rightarrow> Inl e
        | Inr loaded \<Rightarrow>
           (let dataConfig = (case mod_data loaded of
                                Some d \<Rightarrow> d
                              | None \<Rightarrow> \<lparr>cacheTtl = Undefined, get = None\<rparr>)
            in case new_URL P (pathname_input ret) (req_url req) of
                 Inl e \<Rightarrow> Inl e
               | Inr u \<Rightarrow>
                  (let ssrModule =
                     \<lparr>url = appendUrlParams P u (pathname_groups ret),
                      filename = meta_filename (meta route),
                      defaultExport = default loaded,
                      dataCacheTtl = cacheTtl dataConfig,
                      data = None, error = None, redirect = None\<rparr>
                   in case get dataConfig of
                        None \<Rightarrow> Inr ssrModule
                      | Some fetcher \<Rightarrow>
                         (case fetcher (req\<lparr>req_url := url ssrModule\<rparr>) ctx of
                            Throws e \<Rightarrow> Inl e
                          | Returns_other v \<Rightarrow> Inr ssrModule
                          | Returns_Response res \<Rightarrow> Inr (resolve_response P res ssrModule))))))"

definition initSSR :: "Platform \<Rightarrow> Request \<Rightarrow> FetchContext \<Rightarrow> Route list \<Rightarrow> Thrown + URL \<times> SSRModule list" where
  "initSSR P req ctx routes =
     (let u = req_url req; matches = matchRoutes P routes u
      in if matches \<noteq> []
         then (case Promise_all (map (loadModule P req ctx) matches) of
                 Inl e \<Rightarrow> Inl e
               | Inr modules \<Rightarrow> Inr (u, filter (\<lambda>m. defaultExport m \<noteq> Undefined) modules))
         else Inr (u, []))"

section \<open>\<^verbatim>\<open>fetch\<close>: the render pipeline\<close>

subsection \<open>Small built-ins\<close>

definition endsWith :: "string \<Rightarrow> string \<Rightarrow> bool" where
  "endsWith s suf = (length suf \<le> length s \<and> drop (length s - length suf) s = suf)"

text \<open>Decimal digits of a natural number, as a template literal prints an index.\<close>

function show_nat :: "nat \<Rightarrow> string" where
  "show_nat n =
     (if n < 10 then [''0123456789'' ! n] else show_nat (n div 10) @ [''0123456789'' ! (n mod 10)])"
  by pat_completeness auto
termination
  by (relation "measure id") auto

declare show_nat.simps [simp del]

text \<open>
  A number inside a template literal.  A non-negative integer below \<open>2^53\<close> prints as its
  decimal digits; every other number is left to the platform's \<^verbatim>\<open>Number::toString\<close>.
\<close>

definition number_toString :: "Platform \<Rightarrow> number \<Rightarrow> string" where
  "number_toString P x =
     (case x of
        Finite q \<Rightarrow>
          if 0 \<le> q \<and> q < 9007199254740992 \<and> of_int \<lfloor>q\<rfloor> = q
          then show_nat (nat \<lfloor>q\<rfloor>)
          else Number_toString P x
      | _ \<Rightarrow> Number_toString P x)"

text \<open>The comparison \<^verbatim>\<open>a < b\<close> on numbers: false whenever \<^verbatim>\<open>NaN\<close> takes part.\<close>

fun number_less :: "number \<Rightarrow> number \<Rightarrow> bool" where
  "number_less NaN b = False"
| "number_less a NaN = False"
| "number_less a NegInfinity = False"
| "number_less NegInfinity b = True"
| "number_less PosInfinity b = False"
| "number_less (Finite a) (Finite b) = (a < b)"
| "number_less (Finite a) PosInfinity = True"

text \<open>\<^verbatim>\<open>Math.min(...xs)\<close>: \<^verbatim>\<open>Infinity\<close> for no argument, \<^verbatim>\<open>NaN\<close> as soon as one argument is.\<close>

fun Math_min :: "number list \<Rightarrow> number" where
  "Math_min [] = PosInfinity"
| "Math_min (x # xs) =
     (if x = NaN \<or> Math_min xs = NaN then NaN
      else if number_less (Math_min xs) x then Math_min xs else x)"

text \<open>
  \<^verbatim>\<open>Number(v)\<close>.  The renderer applies it to values it has just tested to be numbers;
  the conversions of the other kinds of value are not modelled.
\<close>

fun to_Number :: "js_value \<Rightarrow> number" where
  "to_Number (Number x) = x"
| "to_Number v = NaN"

subsection \<open>Cache policy (lines 113 to 122)\<close>

definition positive_ttl :: "js_value \<Rightarrow> bool" where
  "positive_ttl v =
     (case v of Number x \<Rightarrow> x \<noteq> NaN \<and> number_less (Finite 0) x | _ \<Rightarrow> False)"

definition ttls_of :: "SSRModule list \<Rightarrow> number list" where
  "ttls_of modules =
     map (\<lambda>m. to_Number (dataCacheTtl m)) (filter (\<lambda>m. positive_ttl (dataCacheTtl m)) modules)"

definition cache_control :: "Platform \<Rightarrow> SSRModule list \<Rightarrow> string" where
  "cache_control P modules =
     (let ttls = ttls_of modules
      in if length ttls > 1 then ''public, max-age='' @ number_toString P (Math_min ttls)
         else if length ttls = 1 then ''public, max-age='' @ number_toString P (ttls ! 0)
         else ''public, max-age=0, must-revalidate'')"

subsection \<open>The rewriter\<close>

text \<open>
  A selector is taken by what it selects.  The built-in handlers are bound to type
  selectors; \<^verbatim>\<open>nomoduleInserted\<close> and \<^verbatim>\<open>handled\<close> are the two flags the built-in handler
  objects carry through one document pass.
\<close>

type_synonym Selector = "Element \<Rightarrow> bool"

definition tag :: "string \<Rightarrow> Selector" where
  "tag name el = (tagName el = name)"

record HandlerState =
  nomoduleInserted :: bool
  handled :: bool

text \<open>
  A handler edits the element and the flags, or raises; what it raises ends the pass.
\<close>

type_synonym Handler = "Element \<Rightarrow> HandlerState \<Rightarrow> Thrown + Element \<times> HandlerState"

definition stateless :: "(Element \<Rightarrow> Element) \<Rightarrow> Handler" where
  "stateless f el st = Inr (f el, st)"

definition fallible :: "(Element \<Rightarrow> Thrown + Element) \<Rightarrow> Handler" where
  "fallible f el st = (case f el of Inl e \<Rightarrow> Inl e | Inr el' \<Rightarrow> Inr (el', st))"

text \<open>
  One element visits, in registration order, every handler whose selector selects it
  (as the template has it); each handler sees the edits of the earlier ones.
\<close>

fun run_handlers :: "(Selector \<times> Handler) list \<Rightarrow> Element \<Rightarrow> Element \<Rightarrow> HandlerState \<Rightarrow> Thrown + Element \<times> HandlerState" where
  "run_handlers [] el0 el st = Inr (el, st)"
| "run_handlers ((sel, h) # regs) el0 el st =
     (if sel el0
      then (case h el st of
              Inl e \<Rightarrow> Inl e
            | Inr (el', st') \<Rightarrow> run_handlers regs el0 el' st')
      else run_handlers regs el0 el st)"

text \<open>
  \<^verbatim>\<open>rewriter.write\<close> and \<^verbatim>\<open>rewriter.end\<close>: one pass over the template in document order,
  which a raising handler leaves at once.
\<close>

fun rewrite :: "(Selector \<times> Handler) list \<Rightarrow> StartTag list \<Rightarrow> HandlerState \<Rightarrow> Thrown + Element list" where
  "rewrite regs [] st = Inr []"
| "rewrite regs (t # ts) st =
     (case run_handlers regs (element_of t) (element_of t) st of
        Inl e \<Rightarrow> Inl e
      | Inr (el', st') \<Rightarrow>
          (case rewrite regs ts st' of
             Inl e \<Rightarrow> Inl e
           | Inr els \<Rightarrow> Inr (el' # els)))"

subsection \<open>Style collection (lines 52 to 82)\<close>

definition style_modules :: "Platform \<Rightarrow> SSRModule list \<Rightarrow> DepModule list" where
  "style_modules P modules =
     concat (map (\<lambda>m. case serverDependencyGraph P of
                         None \<Rightarrow> []
                       | Some walk \<Rightarrow>
                           filter (\<lambda>d. inlineCSS d \<or> endsWith (specifier d) ''.css'') (walk (filename m)))
                 modules)"

definition style_tag :: "Platform \<Rightarrow> bool \<Rightarrow> DepModule \<Rightarrow> Thrown + string" where
  \<open>style_tag P dev d =
     (case readTextFile P (specifier d) of
        Inl e \<Rightarrow> Inl e
      | Inr rawCode \<Rightarrow>
          if endsWith (specifier d) ''.css''
          then (case bundleCSS P (specifier d) rawCode (\<not> dev) of
                  Inl e \<Rightarrow> Inl e
                | Inr code \<Rightarrow>
                    Inr (''<style data-module-id="'' @ specifier d @ ''">'' @ code @ ''</style>''))
          else if inlineCSS d
          then (case unoGenerate P rawCode (specifier d) (\<not> dev) of
                  Inl e \<Rightarrow> Inl e
                | Inr css \<Rightarrow>
                    if css \<noteq> []
                    then Inr (''<style data-module-id="'' @ specifier d @ ''">'' @ css @ ''</style>'')
                    else Inr [])
          else Inr [])\<close>

definition collect_styles :: "Platform \<Rightarrow> bool \<Rightarrow> SSRModule list \<Rightarrow> Thrown + string list" where
  "collect_styles P dev modules =
     (if modules \<noteq> []
      then Promise_all (map (style_tag P dev) (style_modules P modules))
      else Inr [])"

subsection \<open>The handlers of the SSR markers\<close>

definition error_json :: "ErrorInfo option \<Rightarrow> js_value" where
  "error_json e =
     (case e of
        None \<Rightarrow> Undefined
      | Some i \<Rightarrow> Object [(''message'', String (message i)),
                           (''status'', Number (Finite (of_nat (error_status i))))])"

definition ssr_data :: "SSRModule list \<Rightarrow> js_value" where
  "ssr_data modules =
     Array (map (\<lambda>m. Object [(''url'', String (pathname (url m) @ search (url m))),
                              (''module'', String (filename m)),
                              (''error'', error_json (error m)),
                              (''data'', (case data m of Some v \<Rightarrow> v | None \<Rightarrow> Undefined)),
                              (''dataCacheTtl'', dataCacheTtl m)])
                modules)"

text \<open>Lines 84 to 106: the \<^verbatim>\<open>ssr-head\<close> handler after a render that returned a string.\<close>

definition ssr_head_element :: "Platform \<Rightarrow> SSRModule list \<Rightarrow> string list \<Rightarrow> Element \<Rightarrow> Element" where
  \<open>ssr_head_element P modules headCollection el =
     (let el1 = foldl (\<lambda>e h. if h \<noteq> [] then before e h else e) el headCollection;
          el2 =
            (if modules \<noteq> []
             then (let importStmts =
                         concat (map (\<lambda>(idx, m). ''import mod_'' @ show_nat idx @ '' from '' @
                                        JSON_stringify P (String (drop 1 (filename m))) @ '';'')
                                     (enumerate 0 modules));
                       kvs =
                         join '','' (map (\<lambda>(idx, m). JSON_stringify P (String (filename m)) @
                                          '':mod_'' @ show_nat idx)
                                       (enumerate 0 modules));
                       el' = before el1 (''<script id="ssr-data" type="application/json">'' @
                                         JSON_stringify P (ssr_data modules) @ ''</script>'')
                   in before el' (''<script type="module">'' @ importStmts @
                                  ''window.__ROUTE_MODULES={'' @ kvs @ ''};</script>''))
             else el1)
      in remove el2)\<close>

text \<open>Lines 108 to 112.\<close>

definition ssr_body_element :: "string \<Rightarrow> Element \<Rightarrow> Element" where
  "ssr_body_element ssrOutput el = replace el ssrOutput"

text \<open>\<^verbatim>\<open>${error.stack}\<close>: the text, or what evaluating it raises.\<close>

fun stack_text :: "Thrown \<Rightarrow> Thrown + string" where
  "stack_text (Stack_prints s) = Inr s"
| "stack_text (Stack_raises e) = Inl e"

text \<open>
  Lines 131 to 135: the \<^verbatim>\<open>ssr-body\<close> handler of the catch clause.  The template is
  evaluated when the handler runs, so a thrown value whose stack cannot be read makes
  the handler raise.
\<close>

definition failure_body_element :: "Thrown \<Rightarrow> Element \<Rightarrow> Thrown + Element" where
  "failure_body_element err el =
     (case stack_text err of
        Inl e \<Rightarrow> Inl e
      | Inr trace \<Rightarrow> Inr (replace el (''<code><pre>'' @ trace @ ''</pre></code>'')))"

subsection \<open>The handlers of every pass (lines 153 to 214)\<close>

definition linkHandler :: "Platform \<Rightarrow> bool \<Rightarrow> Element \<Rightarrow> Element" where
  \<open>linkHandler P dev el =
     (case getAttribute el ''href'' of
        None \<Rightarrow> el
      | Some href0 \<Rightarrow>
          if href0 = [] then el
          else (let isUrl = isLikelyHttpURL P href0;
                    href = (if \<not> isUrl then cleanPath P href0 else href0);
                    el1 = (if \<not> isUrl then setAttribute el ''href'' href else el)
                in if endsWith href ''.css'' \<and> \<not> isUrl \<and> dev
                   then (let specifier = ''.'' @ href
                         in after (setAttribute el1 ''data-module-id'' specifier)
                              (''<script type="module">import hot from "'' @
                               toLocalPath P (alephPkgUri P) @ ''/framework/core/hmr.ts";hot('' @
                               JSON_stringify P (String specifier) @ '').accept();</script>''))
                   else el1))\<close>

definition scriptHandler :: "Platform \<Rightarrow> Handler" where
  \<open>scriptHandler P el st =
     (let el1 = (case getAttribute el ''src'' of
                   None \<Rightarrow> el
                 | Some src \<Rightarrow>
                     if src \<noteq> [] \<and> \<not> isLikelyHttpURL P src
                     then setAttribute el ''src'' (cleanPath P src)
                     else el)
      in if getAttribute el1 ''type'' = Some ''module'' \<and> \<not> nomoduleInserted st
         then Inr (after el1 (''<script nomodule src="'' @ alephPkgUri P @ ''/lib/nomodule.js"></script>''),
                   st\<lparr>nomoduleInserted := True\<rparr>)
         else Inr (el1, st))\<close>

definition meta_json :: "RouteMeta \<Rightarrow> js_value" where
  "meta_json m =
     Object [(''pattern'', Object [(''pathname'', String (pattern_pathname m))]),
             (''nesting'', Boolean (nesting m)),
             (''filename'', String (meta_filename m))]"

definition route_manifest :: "Platform \<Rightarrow> Route list \<Rightarrow> string" where
  \<open>route_manifest P routes =
     ''<script id="route-manifest" type="application/json">'' @
     JSON_stringify P (Object [(''routes'', Array (map (\<lambda>r. meta_json (meta r)) routes))]) @
     ''</script>''\<close>

definition hmr_url_script :: "Platform \<Rightarrow> string \<Rightarrow> string" where
  \<open>hmr_url_script P hmrWebSocketUrl =
     ''<script>window.__hmrWebSocketUrl='' @ JSON_stringify P (String hmrWebSocketUrl) @
     '';</script>''\<close>

definition hot_decline_script :: "Platform \<Rightarrow> string" where
  \<open>hot_decline_script P =
     ''<script type="module">import hot from "'' @ toLocalPath P (alephPkgUri P) @
     ''/framework/core/hmr.ts";hot("./index.html").decline();</script>''\<close>

text \<open>
  Lines 189 to 214.  The flag \<^verbatim>\<open>handled\<close> is set at the end of the branch
  \<^verbatim>\<open>if (isDev)\<close>, where the source sets it.
\<close>

definition commonHandler :: "Platform \<Rightarrow> Route list \<Rightarrow> bool \<Rightarrow> string option \<Rightarrow> Handler" where
  "commonHandler P routes dev hmrWebSocketUrl el st =
     (if handled st then Inr (el, st)
      else (let el1 = (if routes \<noteq> [] then append_content el (route_manifest P routes) else el)
            in if dev
               then (let el2 = (case hmrWebSocketUrl of
                                  None \<Rightarrow> el1
                                | Some w \<Rightarrow>
                                    if w \<noteq> [] then append_content el1 (hmr_url_script P w) else el1)
                     in Inr (append_content el2 (hot_decline_script P), st\<lparr>handled := True\<rparr>))
               else Inr (el1, st)))"

subsection \<open>\<^verbatim>\<open>fetch\<close>\<close>

text \<open>
  The one-time start of the rewriter engine (lines 27 to 30) is not modelled.

  The render callback is called with the URL, the modules and an empty head collection;
  it answers with a value or raises, and leaves the fragments it has pushed so far in
  the head collection.
\<close>

record SSRContext =
  ssr_url :: URL
  modules :: "SSRModule list"
  headCollection :: "string list"

datatype SSROutcome = Returned js_value | Raised Thrown

record RenderOptions =
  indexHtml :: "StartTag list"
  routes :: "Route list"
  isDev :: bool
  customHTMLRewriter :: "(Selector \<times> HTMLRewriterHandlers) list"
  hmrWebSocketUrl :: "string option"
  ssrHandler :: "(SSRContext \<Rightarrow> SSROutcome \<times> string list) option"

text \<open>What \<^verbatim>\<open>fetch\<close> builds up before the pass: the handlers bound so far, the headers, the flag \<^verbatim>\<open>ssr\<close>.\<close>

record Pipeline =
  registered :: "(Selector \<times> Handler) list"
  out_headers :: Headers
  ssr :: bool

definition non_cacheable :: string where
  "non_cacheable = ''public, max-age=0, must-revalidate''"

text \<open>Lines 125 to 138: the catch clause.\<close>

definition render_failed :: "Thrown \<Rightarrow> Pipeline \<Rightarrow> Pipeline" where
  "render_failed err s =
     \<lparr>registered = registered s @
        [(tag ''ssr-head'', stateless remove),
         (tag ''ssr-body'', fallible (failure_body_element err))],
      out_headers = headers_append (out_headers s) ''Cache-Control'' non_cacheable,
      ssr = True\<rparr>"

text \<open>Lines 48 to 124: the try block.  A value that is not a string leaves everything as it was.\<close>

definition render :: "Platform \<Rightarrow> RenderOptions \<Rightarrow> (SSRContext \<Rightarrow> SSROutcome \<times> string list) \<Rightarrow> URL \<Rightarrow> SSRModule list \<Rightarrow> Pipeline \<Rightarrow> Pipeline" where
  "render P options callback u ms s =
     (case callback \<lparr>ssr_url = u, modules = ms, headCollection = []\<rparr> of
        (Raised err, pushed) \<Rightarrow> render_failed err s
      | (Returned ssrOutput, pushed) \<Rightarrow>
          (case ssrOutput of
             String out \<Rightarrow>
               (case collect_styles P (isDev options) ms of
                  Inl err \<Rightarrow> render_failed err s
                | Inr styles \<Rightarrow>
                    \<lparr>registered = registered s @
                       [(tag ''ssr-head'', stateless (ssr_head_element P ms (pushed @ styles))),
                        (tag ''ssr-body'', stateless (ssr_body_element out))],
                     out_headers = headers_append (out_headers s) ''Cache-Control'' (cache_control P ms),
                     ssr = True\<rparr>)
           | _ \<Rightarrow> s))"

text \<open>Lines 42 to 46: the first module that carries a redirect.\<close>

fun first_redirect :: "SSRModule list \<Rightarrow> Redirect option" where
  "first_redirect [] = None"
| "first_redirect (m # ms) = (case redirect m of Some r \<Rightarrow> Some r | None \<Rightarrow> first_redirect ms)"

text \<open>
  Lines 39 to 139.  The result is a failure that escapes \<^verbatim>\<open>fetch\<close>, a response returned at
  once, or the pipeline to go on with.
\<close>

definition ssr_stage :: "Platform \<Rightarrow> Request \<Rightarrow> FetchContext \<Rightarrow> RenderOptions \<Rightarrow> Pipeline \<Rightarrow> Thrown + Response + Pipeline" where
  "ssr_stage P req ctx options s =
     (case ssrHandler options of
        None \<Rightarrow> Inr (Inr s)
      | Some callback \<Rightarrow>
          (case initSSR P req ctx (routes options) of
             Inl e \<Rightarrow> Inl e
           | Inr (u, ms) \<Rightarrow>
               (case first_redirect ms of
                  Some r \<Rightarrow>
                    Inr (Inl \<lparr>status = redirect_status r, headers = redirect_headers r, body = NoBody\<rparr>)
                | None \<Rightarrow> Inr (Inr (render P options callback u ms s)))))"

text \<open>Lines 141 to 151: the static template.\<close>

definition static_stage :: "Platform \<Rightarrow> Request \<Rightarrow> Pipeline \<Rightarrow> Thrown + Response + Pipeline" where
  "static_stage P req s =
     (if \<not> ssr s
      then (case lstat_mtime P of
              Inl e \<Rightarrow> Inl e
            | Inr None \<Rightarrow>
                Inr (Inr (s\<lparr>out_headers := headers_append (out_headers s) ''Cache-Control'' non_cacheable\<rparr>))
            | Inr (Some mtimeUTC) \<Rightarrow>
                if headers_get (req_headers req) ''If-Modified-Since'' = Some mtimeUTC
                then Inr (Inl \<lparr>status = 304, headers = [], body = NoBody\<rparr>)
                else Inr (Inr (s\<lparr>out_headers :=
                       headers_append (headers_append (out_headers s) ''Last-Modified'' mtimeUTC)
                         ''Cache-Control'' non_cacheable\<rparr>)))
      else Inr (Inr s))"

text \<open>Lines 216 to 220: the handlers bound on every pass, after those of the SSR stage.\<close>

definition pass_handlers :: "Platform \<Rightarrow> RenderOptions \<Rightarrow> (Selector \<times> Handler) list" where
  "pass_handlers P options =
     map (\<lambda>(selector, handlers). (selector, stateless (custom_element handlers)))
       (customHTMLRewriter options) @
     [(tag ''link'', stateless (linkHandler P (isDev options))),
      (tag ''script'', scriptHandler P),
      (tag ''head'', commonHandler P (routes options) (isDev options) (hmrWebSocketUrl options)),
      (tag ''body'', commonHandler P (routes options) (isDev options) (hmrWebSocketUrl options))]"

text \<open>
  Lines 141 to 225: the static-template test, then the pass and the response.  What a
  handler raises during the pass escapes \<^verbatim>\<open>fetch\<close>.
\<close>

definition finish :: "Platform \<Rightarrow> Request \<Rightarrow> RenderOptions \<Rightarrow> Pipeline \<Rightarrow> Thrown + Response" where
  "finish P req options s1 =
     (case static_stage P req s1 of
        Inl e \<Rightarrow> Inl e
      | Inr (Inl response) \<Rightarrow> Inr response
      | Inr (Inr s2) \<Rightarrow>
          (case rewrite (registered s2 @ pass_handlers P options) (indexHtml options)
                  \<lparr>nomoduleInserted = False, handled = False\<rparr> of
             Inl e \<Rightarrow> Inl e
           | Inr chunks \<Rightarrow>
               Inr \<lparr>status = 200, headers = out_headers s2, body = Document chunks\<rparr>))"

definition start :: Pipeline where
  "start = \<lparr>registered = [],
            out_headers = [(''Content-Type'', ''text/html; charset=utf-8'')],
            ssr = False\<rparr>"

definition fetch :: "Platform \<Rightarrow> Request \<Rightarrow> FetchContext \<Rightarrow> RenderOptions \<Rightarrow> Thrown + Response" where
  "fetch P req ctx options =
     (case ssr_stage P req ctx options start of
        Inl e \<Rightarrow> Inl e
      | Inr (Inl response) \<Rightarrow> Inr response
      | Inr (Inr s1) \<Rightarrow> finish P req options s1)"

text \<open>
  What the caller's own handlers make of an element: \<open>el0\<close> is the element as the
  template has it, \<open>el\<close> the element with the edits made so far.
\<close>

fun run_custom :: "(Selector \<times> HTMLRewriterHandlers) list \<Rightarrow> Element \<Rightarrow> Element \<Rightarrow> Element" where
  "run_custom [] el0 el = el"
| "run_custom ((sel, h) # cs) el0 el =
     (if sel el0 then run_custom cs el0 (custom_element h el) else run_custom cs el0 el)"

section \<open>Concrete inputs\<close>

text \<open>
  The routes, modules, requests and options at which the theorems below are
  instantiated, with a small platform that answers every question the renderer asks.

  Two kinds of URL pattern: a fixed path, and a single named segment (\<^verbatim>\<open>/:name\<close>).  Both
  answer with the pathname they were asked about as \<^verbatim>\<open>pathname.input\<close>.
\<close>

definition static_pattern :: "string \<Rightarrow> string \<Rightarrow> string \<Rightarrow> URLPatternResult option" where
  "static_pattern path h p =
     (if p = path then Some \<lparr>pathname_input = p, pathname_groups = []\<rparr> else None)"

definition segment_pattern :: "string \<Rightarrow> string \<Rightarrow> string \<Rightarrow> URLPatternResult option" where
  "segment_pattern name h p =
     (case p of
        [] \<Rightarrow> None
      | c # seg \<Rightarrow>
          if c = CHR ''/'' \<and> seg \<noteq> [] \<and> CHR ''/'' \<notin> set seg
          then Some \<lparr>pathname_input = p, pathname_groups = [(name, seg)]\<rparr>
          else None)"

text \<open>A path cut at its slashes, empty segments dropped.\<close>

fun split_slash :: "string \<Rightarrow> string \<Rightarrow> string list" where
  "split_slash seg [] = (if seg = [] then [] else [seg])"
| "split_slash seg (c # cs) =
     (if c = CHR ''/''
      then (if seg = [] then split_slash [] cs else seg # split_slash [] cs)
      else split_slash (seg @ [c]) cs)"

definition example_platform :: Platform where
  "example_platform =
     \<lparr>createStaticURLPatternResult = (\<lambda>h p. \<lparr>pathname_input = p, pathname_groups = []\<rparr>),
      splitPath = split_slash [],
      new_URL = (\<lambda>p base. Inr (base\<lparr>pathname := p, search := []\<rparr>)),
      appendUrlParams = (\<lambda>u groups. u),
      JSON_parse = (\<lambda>s. if s = ''null'' then Some Null
                         else if s = ''true'' then Some (Boolean True)
                         else if s = ''false'' then Some (Boolean False)
                         else None),
      JSON_stringify = (\<lambda>v. case v of String s \<Rightarrow> CHR 0x22 # s @ [CHR 0x22] | _ \<Rightarrow> ''null''),
      Number_toString = (\<lambda>x. case x of PosInfinity \<Rightarrow> ''Infinity''
                                     | NegInfinity \<Rightarrow> ''-Infinity''
                                     | _ \<Rightarrow> ''NaN''),
      serialize = (\<lambda>d. []),
      lstat_mtime = Inr (Some ''Thu, 01 Jan 2026 00:00:00 GMT''),
      alephPkgUri = ''https://deno.land/x/aleph'',
      toLocalPath = (\<lambda>s. ''/-/deno.land/x/aleph''),
      cleanPath = (\<lambda>s. s),
      isLikelyHttpURL = (\<lambda>s. take 7 s = ''http://'' \<or> take 8 s = ''https://''),
      serverDependencyGraph = None,
      readTextFile = (\<lambda>f. Inr []),
      bundleCSS = (\<lambda>f code minify. Inr code),
      unoGenerate = (\<lambda>code f minify. Inr [])\<rparr>"

definition request_for :: "string \<Rightarrow> Request" where
  "request_for p =
     \<lparr>req_url = \<lparr>host = ''localhost'', pathname = p, search = []\<rparr>, req_headers = []\<rparr>"

definition page :: Module where
  "page = \<lparr>default = String ''component'', mod_data = None\<rparr>"

text \<open>A module whose data fetcher answers with the given response.\<close>

definition page_with_data :: "js_value \<Rightarrow> js_value \<Rightarrow> Response \<Rightarrow> Module" where
  "page_with_data component ttl res =
     \<lparr>default = component,
      mod_data = Some \<lparr>cacheTtl = ttl, get = Some (\<lambda>req ctx. Returns_Response res)\<rparr>\<rparr>"

definition route_of :: "(string \<Rightarrow> string \<Rightarrow> URLPatternResult option) \<Rightarrow> string \<Rightarrow> bool \<Rightarrow> string \<Rightarrow> Module \<Rightarrow> Route" where
  "route_of pat p nest file m =
     \<lparr>pattern = pat, imp = Inr m,
      meta = \<lparr>pattern_pathname = p, nesting = nest, meta_filename = file\<rparr>\<rparr>"

definition app_route :: Route where
  "app_route = route_of (static_pattern ''/_app'') ''/_app'' True ''./routes/_app.tsx'' page"

definition not_found_route :: Route where
  "not_found_route = route_of (static_pattern ''/_404'') ''/_404'' False ''./routes/_404.tsx'' page"

definition home_route :: Route where
  "home_route = route_of (static_pattern ''/'') ''/'' False ''./routes/index.tsx'' page"

definition slug_route :: Route where
  "slug_route = route_of (segment_pattern ''slug'') ''/:slug'' False ''./routes/$slug.tsx'' page"

text \<open>Responses a data fetcher may answer with, and a route of the home page that fetches.\<close>

definition moved :: Response where
  "moved = \<lparr>status = 302, headers = [(''Location'', ''/login'')], body = NoBody\<rparr>"

definition moved_nowhere :: Response where
  "moved_nowhere = \<lparr>status = 302, headers = [], body = NoBody\<rparr>"

definition home_match :: URLPatternResult where
  "home_match = \<lparr>pathname_input = ''/'', pathname_groups = []\<rparr>"

definition data_route :: "js_value \<Rightarrow> js_value \<Rightarrow> Response \<Rightarrow> Route" where
  "data_route component ttl res =
     route_of (static_pattern ''/'') ''/'' False ''./routes/index.tsx'' (page_with_data component ttl res)"

text \<open>A template with both markers, render callbacks, and options that differ in the callback.\<close>

definition template :: "StartTag list" where
  "template = [(''html'', []), (''head'', []), (''ssr-head'', []), (''body'', []), (''ssr-body'', [])]"

definition text_callback :: "SSRContext \<Rightarrow> SSROutcome \<times> string list" where
  "text_callback c = (Returned (String ''<h1>Hello</h1>''), [''<title>Hello</title>''])"

definition failing_callback :: "SSRContext \<Rightarrow> SSROutcome \<times> string list" where
  "failing_callback c = (Raised (Stack_prints ''Error: boom''), [''<title>Hello</title>''])"

text \<open>A callback that throws \<^verbatim>\<open>undefined\<close>: reading its stack raises a \<^verbatim>\<open>TypeError\<close>.\<close>

definition type_error :: Thrown where
  "type_error = Stack_prints ''TypeError: Cannot read properties of undefined''"

definition undefined_callback :: "SSRContext \<Rightarrow> SSROutcome \<times> string list" where
  "undefined_callback c = (Raised (Stack_raises type_error), [])"

definition silent_callback :: "SSRContext \<Rightarrow> SSROutcome \<times> string list" where
  "silent_callback c = (Returned Undefined, [])"

definition options_for :: "Route list \<Rightarrow> bool \<Rightarrow> (SSRContext \<Rightarrow> SSROutcome \<times> string list) option \<Rightarrow> RenderOptions" where
  "options_for rs dev callback =
     \<lparr>indexHtml = template, routes = rs, isDev = dev, customHTMLRewriter = [],
      hmrWebSocketUrl = None, ssrHandler = callback\<rparr>"

text \<open>A module as \<^verbatim>\<open>initSSR\<close> builds it for the home page, with a given TTL and redirect.\<close>

definition home_module :: "js_value \<Rightarrow> Redirect option \<Rightarrow> SSRModule" where
  "home_module ttl r =
     \<lparr>url = \<lparr>host = ''localhost'', pathname = ''/'', search = []\<rparr>,
      filename = ''./routes/index.tsx'', defaultExport = String ''component'',
      dataCacheTtl = ttl, data = None, error = None, redirect = r\<rparr>"

text \<open>Options whose caller binds a handler of its own to the body marker.\<close>

definition custom_options :: RenderOptions where
  \<open>custom_options =
     \<lparr>indexHtml = template, routes = [home_route], isDev = False,
      customHTMLRewriter = [(tag ''ssr-body'', \<lambda>el. [Content (Replace ''<p>loading</p>'')])],
      hmrWebSocketUrl = None, ssrHandler = None\<rparr>\<close>

definition custom_failing_options :: RenderOptions where
  "custom_failing_options = custom_options\<lparr>ssrHandler := Some failing_callback\<rparr>"

text \<open>The tag names and content edits of a response's document.\<close>

definition edits_of :: "Thrown + Response \<Rightarrow> (string \<times> mutation list) list" where
  "edits_of r =
     (case r of
        Inl e \<Rightarrow> []
      | Inr response \<Rightarrow>
          (case body response of
             Document d \<Rightarrow> map (\<lambda>el. (tagName el, mutations el)) d
           | _ \<Rightarrow> []))"

section \<open>Properties of route matching\<close>

lemmas example_route_defs =
  route_of_def app_route_def not_found_route_def home_route_def slug_route_def data_route_def
  static_pattern_def segment_pattern_def page_def page_with_data_def home_match_def
  moved_def moved_nowhere_def

lemmas example_match_defs =
  matchRoutes_def scan_def scan_route_def not_found_fallback_def root_layout_def

text \<open>
  C1 at a request for the layout's own path.  The table is \<^verbatim>\<open>[/:slug, /_app]\<close> and the
  request asks for \<^verbatim>\<open>/_app\<close>.  The leaf route \<^verbatim>\<open>/:slug\<close> matches first, so the first match
  recorded has the pathname \<^verbatim>\<open>/_app\<close>.  The test of line 268 reads that pathname, where
  lines 238 and 270 tell the root layout by the pattern of its route; it takes the
  leaf's match for the layout's and puts nothing in front.  The match list is not
  empty, the table holds the root layout, and the first element of the list belongs to
  the leaf route; the root layout comes second.
\<close>

theorem root_layout_not_first:
  "matchRoutes example_platform [slug_route, app_route] (req_url (request_for ''/_app'')) \<noteq> [] \<and>
   app_route \<in> set [slug_route, app_route] \<and>
   pattern_pathname (meta app_route) = ''/_app'' \<and>
   pattern_pathname (meta (snd (hd (matchRoutes example_platform [slug_route, app_route]
      (req_url (request_for ''/_app'')))))) = ''/:slug'' \<and>
   map (\<lambda>(ret, route). (pathname_input ret, pattern_pathname (meta route)))
     (matchRoutes example_platform [slug_route, app_route] (req_url (request_for ''/_app''))) =
     [(''/_app'', ''/:slug''), (''/_app'', ''/_app'')]"
  by (simp add: example_route_defs example_match_defs request_for_def example_platform_def)

text \<open>
  C7, as the code has it.  When the scan of the table records no match of a leaf
  (non-nesting) route and the table holds a route whose pattern pathname is \<^verbatim>\<open>/_404\<close>,
  exactly one match is appended to the scanned ones: the synthetic match
  \<^verbatim>\<open>createStaticURLPatternResult(url.host, "/_404")\<close> of the first such route.  It is built
  from the request's host and the literal path \<^verbatim>\<open>/_404\<close>; the path of the request does not
  enter it.  In the final list it is the last element, behind the scanned matches, with
  at most the root layout in front.
\<close>

theorem not_found_appended_once:
  assumes "filter (\<lambda>(ret, route). \<not> nesting (meta route)) (scan P rs u) = []"
    and "find (\<lambda>route. pattern_pathname (meta route) = ''/_404'') rs = Some nf"
  shows "not_found_fallback P rs u (scan P rs u) =
           scan P rs u @ [(createStaticURLPatternResult P (host u) ''/_404'', nf)] \<and>
         (\<exists>front. length front \<le> 1 \<and>
            matchRoutes P rs u =
              front @ scan P rs u @ [(createStaticURLPatternResult P (host u) ''/_404'', nf)])"
proof -
  let ?nf = "(createStaticURLPatternResult P (host u) ''/_404'', nf)"
  have fb: "not_found_fallback P rs u (scan P rs u) = scan P rs u @ [?nf]"
    using assms by (simp add: not_found_fallback_def)
  have ne: "rs \<noteq> []"
    using assms(2) by auto
  have "matchRoutes P rs u = scan P rs u @ [?nf] \<or>
        (\<exists>m. matchRoutes P rs u = [m] @ scan P rs u @ [?nf])"
    using ne by (auto simp: matchRoutes_def fb root_layout_def split: list.splits option.splits)
  then have "\<exists>front. length front \<le> 1 \<and> matchRoutes P rs u = front @ scan P rs u @ [?nf]"
  proof
    assume "matchRoutes P rs u = scan P rs u @ [?nf]"
    then have "length ([] :: RouteMatch list) \<le> 1 \<and> matchRoutes P rs u = [] @ scan P rs u @ [?nf]"
      by simp
    then show ?thesis by blast
  next
    assume "\<exists>m. matchRoutes P rs u = [m] @ scan P rs u @ [?nf]"
    then obtain m where "matchRoutes P rs u = [m] @ scan P rs u @ [?nf]" ..
    then have "length [m] \<le> 1 \<and> matchRoutes P rs u = [m] @ scan P rs u @ [?nf]"
      by simp
    then show ?thesis by blast
  qed
  with fb show ?thesis
    by simp
qed

text \<open>
  A request for \<^verbatim>\<open>/missing\<close> against the table \<^verbatim>\<open>[/, /_404]\<close>: nothing matches, and the
  match list is the one synthetic not-found match.
\<close>

theorem not_found_appended_once_witness:
  "filter (\<lambda>(ret, route). \<not> nesting (meta route))
     (scan example_platform [home_route, not_found_route] (req_url (request_for ''/missing''))) = [] \<and>
   find (\<lambda>route. pattern_pathname (meta route) = ''/_404'') [home_route, not_found_route]
     = Some not_found_route \<and>
   not_found_fallback example_platform [home_route, not_found_route]
     (req_url (request_for ''/missing''))
     (scan example_platform [home_route, not_found_route] (req_url (request_for ''/missing''))) =
     scan example_platform [home_route, not_found_route] (req_url (request_for ''/missing'')) @
     [(createStaticURLPatternResult example_platform ''localhost'' ''/_404'', not_found_route)]"
proof -
  have leaf: "filter (\<lambda>(ret, route). \<not> nesting (meta route))
      (scan example_platform [home_route, not_found_route] (req_url (request_for ''/missing''))) = []"
    by (simp add: example_route_defs example_match_defs request_for_def example_platform_def)
  have nf: "find (\<lambda>route. pattern_pathname (meta route) = ''/_404'') [home_route, not_found_route]
      = Some not_found_route"
    by (simp add: example_route_defs)
  have h: "host (req_url (request_for ''/missing'')) = ''localhost''"
    by (simp add: request_for_def)
  from not_found_appended_once [OF leaf nf] leaf nf h show ?thesis
    by simp
qed

text \<open>
  C7 as the claim words it fails in its last part.  With a helper that answers with the
  path it was given, the synthetic match of the request \<^verbatim>\<open>/missing\<close> has the pathname
  \<^verbatim>\<open>/_404\<close>.  And whatever the helper answers, it answers the same for the requests
  \<^verbatim>\<open>/missing\<close> and \<^verbatim>\<open>/absent\<close> of one host: no helper makes both synthetic matches carry the
  path of their request.
\<close>

theorem not_found_appended_once_counterexample:
  "filter (\<lambda>(ret, route). \<not> nesting (meta route))
     (scan example_platform [home_route, not_found_route] (req_url (request_for ''/missing''))) = [] \<and>
   pattern_pathname (meta not_found_route) = ''/_404'' \<and>
   pathname (req_url (request_for ''/missing'')) = ''/missing'' \<and>
   map (\<lambda>(ret, route). (pathname_input ret, pattern_pathname (meta route)))
     (matchRoutes example_platform [home_route, not_found_route] (req_url (request_for ''/missing'')))
     = [(''/_404'', ''/_404'')] \<and>
   pathname_input (fst (last (matchRoutes example_platform [home_route, not_found_route]
      (req_url (request_for ''/missing''))))) \<noteq> pathname (req_url (request_for ''/missing'')) \<and>
   \<not> (\<exists>create.
        pathname_input (fst (last (matchRoutes
          (example_platform\<lparr>createStaticURLPatternResult := create\<rparr>)
          [home_route, not_found_route] (req_url (request_for ''/missing''))))) = ''/missing'' \<and>
        pathname_input (fst (last (matchRoutes
          (example_platform\<lparr>createStaticURLPatternResult := create\<rparr>)
          [home_route, not_found_route] (req_url (request_for ''/absent''))))) = ''/absent'')"
  by (simp add: example_route_defs example_match_defs request_for_def example_platform_def)

section \<open>Properties of module loading\<close>

lemmas example_load_defs =
  loadModule_def resolve_response_def request_for_def example_platform_def
  headers_has_def ascii_lower_def

lemma Promise_all_Inr: "Promise_all ps = Inr xs \<Longrightarrow> ps = map Inr xs"
  by (induction ps arbitrary: xs rule: Promise_all.induct) (auto split: sum.splits)

lemma Promise_all_map_Inr:
  assumes "Promise_all (map f ys) = Inr xs" and "x \<in> set xs"
  shows "\<exists>y\<in>set ys. f y = Inr x"
proof -
  from assms(1) have "map f ys = map Inr xs"
    by (rule Promise_all_Inr)
  with assms(2) have "Inr x \<in> set (map f ys)"
    by simp
  then show ?thesis
    by auto
qed

lemma loadModule_exclusive:
  assumes "loadModule P req ctx mt = Inr m"
  shows "(redirect m = None \<or> error m = None) \<and>
         (redirect m = None \<or> data m = None) \<and>
         (error m = None \<or> data m = None)"
  using assms
  by (auto simp: loadModule_def resolve_response_def Let_def
           split: prod.splits sum.splits option.splits FetcherResult.splits if_splits)

lemma initSSR_modules:
  assumes "initSSR P req ctx rs = Inr (u, ms)" and "m \<in> set ms"
  shows "defaultExport m \<noteq> Undefined \<and>
         (\<exists>mt\<in>set (matchRoutes P rs (req_url req)). loadModule P req ctx mt = Inr m)"
  using assms
  by (auto simp: initSSR_def Let_def split: if_splits sum.splits dest: Promise_all_map_Inr)

text \<open>
  C4, as the code has it.  When the data fetcher of a matched route answers with a
  response, the module is built and the response decides its outcome: a status of 400
  or more sets the error to the text of the body with that status; a status from 300
  to 399 sets the redirect to the headers and the status when a \<^verbatim>\<open>Location\<close> header is
  present, and otherwise sets the error to the message
  \<^verbatim>\<open>Missing the `Location` header\<close> (the word \<^verbatim>\<open>Location\<close> between backquotes) with status
  400; any other status has the body parsed as JSON into the data, and on a parse
  failure sets the error to \<^verbatim>\<open>Data must be valid JSON\<close> with status 400.
\<close>

theorem response_outcome:
  assumes "imp route = Inr loaded"
    and "mod_data loaded = Some dataConfig"
    and "get dataConfig = Some fetcher"
    and "new_URL P (pathname_input ret) (req_url req) = Inr u"
    and "fetcher (req\<lparr>req_url := appendUrlParams P u (pathname_groups ret)\<rparr>) ctx
           = Returns_Response res"
  shows "\<exists>m. loadModule P req ctx (ret, route) = Inr m \<and>
           (400 \<le> status res \<longrightarrow>
              error m = Some \<lparr>message = res_text P res, error_status = status res\<rparr> \<and>
              redirect m = None \<and> data m = None) \<and>
           (300 \<le> status res \<and> status res < 400 \<and> headers_has (headers res) ''Location'' \<longrightarrow>
              redirect m = Some \<lparr>redirect_headers = headers res, redirect_status = status res\<rparr> \<and>
              error m = None \<and> data m = None) \<and>
           (300 \<le> status res \<and> status res < 400 \<and> \<not> headers_has (headers res) ''Location'' \<longrightarrow>
              error m = Some \<lparr>message = ''Missing the `Location` header'', error_status = 400\<rparr> \<and>
              redirect m = None \<and> data m = None) \<and>
           (status res < 300 \<longrightarrow>
              (\<forall>v. res_json P res = Some v \<longrightarrow>
                  data m = Some v \<and> error m = None \<and> redirect m = None) \<and>
              (res_json P res = None \<longrightarrow>
                  error m = Some \<lparr>message = ''Data must be valid JSON'', error_status = 400\<rparr> \<and>
                  data m = None \<and> redirect m = None))"
  using assms
  by (auto simp: loadModule_def resolve_response_def Let_def split: option.splits)

text \<open>The home page's fetcher answers 302 with a \<^verbatim>\<open>Location\<close> header: the module carries the redirect.\<close>

theorem response_outcome_witness:
  "imp (data_route (String ''component'') Undefined moved)
     = Inr (page_with_data (String ''component'') Undefined moved) \<and>
   300 \<le> status moved \<and> status moved < 400 \<and> headers_has (headers moved) ''Location'' \<and>
   (\<exists>m. loadModule example_platform (request_for ''/'') []
           (home_match, data_route (String ''component'') Undefined moved) = Inr m \<and>
        redirect m = Some \<lparr>redirect_headers = headers moved, redirect_status = status moved\<rparr> \<and>
        error m = None \<and> data m = None)"
proof -
  let ?route = "data_route (String ''component'') Undefined moved"
  let ?loaded = "page_with_data (String ''component'') Undefined moved"
  let ?dataConfig = "\<lparr>cacheTtl = Undefined, get = Some (\<lambda>req ctx. Returns_Response moved)\<rparr>"
  have h1: "imp ?route = Inr ?loaded"
    by (simp add: data_route_def route_of_def)
  have h2: "mod_data ?loaded = Some ?dataConfig"
    by (simp add: page_with_data_def)
  have h3: "get ?dataConfig = Some (\<lambda>req ctx. Returns_Response moved)"
    by simp
  have h4: "new_URL example_platform (pathname_input home_match) (req_url (request_for ''/''))
      = Inr (req_url (request_for ''/''))"
    by (simp add: example_platform_def home_match_def request_for_def)
  have h5: "(\<lambda>req ctx. Returns_Response moved)
      ((request_for ''/'')\<lparr>req_url := appendUrlParams example_platform (req_url (request_for ''/''))
         (pathname_groups home_match)\<rparr>) [] = Returns_Response moved"
    by simp
  have st: "300 \<le> status moved \<and> status moved < 400 \<and> headers_has (headers moved) ''Location''"
    by (simp add: moved_def headers_has_def ascii_lower_def)
  from response_outcome [OF h1 h2 h3 h4 h5] h1 st show ?thesis
    by auto
qed

text \<open>
  C4 as the claim words it fails in one message.  For a 302 without a \<^verbatim>\<open>Location\<close>
  header the error message of the module has the word \<^verbatim>\<open>Location\<close> between backquotes;
  it is not the string \<^verbatim>\<open>Missing the Location header\<close> of the claim.
\<close>

theorem response_outcome_counterexample:
  "300 \<le> status moved_nowhere \<and> status moved_nowhere < 400 \<and>
   \<not> headers_has (headers moved_nowhere) ''Location'' \<and>
   (case loadModule example_platform (request_for ''/'') []
           (home_match, data_route (String ''component'') Undefined moved_nowhere) of
      Inl e \<Rightarrow> None
    | Inr m \<Rightarrow> error m)
     = Some \<lparr>message = ''Missing the `Location` header'', error_status = 400\<rparr> \<and>
   (case loadModule example_platform (request_for ''/'') []
           (home_match, data_route (String ''component'') Undefined moved_nowhere) of
      Inl e \<Rightarrow> None
    | Inr m \<Rightarrow> error m)
     \<noteq> Some \<lparr>message = ''Missing the Location header'', error_status = 400\<rparr>"
  by (simp add: example_route_defs example_load_defs)

text \<open>
  C6.  No module that \<^verbatim>\<open>initSSR\<close> builds has both its redirect and its error set, and
  none has its data set next to either: this holds for every module built from a
  match and so for every module of the list that \<^verbatim>\<open>initSSR\<close> returns.  Case by case, on a
  module with nothing set yet: a status of 400 or more sets the error and no redirect;
  a status from 300 to 399 with a \<^verbatim>\<open>Location\<close> header sets the redirect and no error,
  without one the error and no redirect; a body that fails to parse sets the error and
  no redirect.
\<close>

theorem redirect_error_exclusive:
  "(\<forall>mt m. loadModule P req ctx mt = Inr m \<longrightarrow>
      \<not> (redirect m \<noteq> None \<and> error m \<noteq> None) \<and>
      \<not> (redirect m \<noteq> None \<and> data m \<noteq> None) \<and>
      \<not> (error m \<noteq> None \<and> data m \<noteq> None)) \<and>
   (\<forall>rs u ms m. initSSR P req ctx rs = Inr (u, ms) \<and> m \<in> set ms \<longrightarrow>
      \<not> (redirect m \<noteq> None \<and> error m \<noteq> None)) \<and>
   (\<forall>res m. error m = None \<and> redirect m = None \<longrightarrow>
      (400 \<le> status res \<longrightarrow>
         error (resolve_response P res m) \<noteq> None \<and> redirect (resolve_response P res m) = None) \<and>
      (300 \<le> status res \<and> status res < 400 \<and> headers_has (headers res) ''Location'' \<longrightarrow>
         redirect (resolve_response P res m) \<noteq> None \<and> error (resolve_response P res m) = None) \<and>
      (300 \<le> status res \<and> status res < 400 \<and> \<not> headers_has (headers res) ''Location'' \<longrightarrow>
         error (resolve_response P res m) \<noteq> None \<and> redirect (resolve_response P res m) = None) \<and>
      (status res < 300 \<and> res_json P res = None \<longrightarrow>
         error (resolve_response P res m) \<noteq> None \<and> redirect (resolve_response P res m) = None))"
proof (intro conjI allI impI)
  fix mt m
  assume "loadModule P req ctx mt = Inr m"
  from loadModule_exclusive [OF this]
  show "\<not> (redirect m \<noteq> None \<and> error m \<noteq> None)"
    and "\<not> (redirect m \<noteq> None \<and> data m \<noteq> None)"
    and "\<not> (error m \<noteq> None \<and> data m \<noteq> None)"
    by auto
next
  fix rs u ms m
  assume a: "initSSR P req ctx rs = Inr (u, ms) \<and> m \<in> set ms"
  then obtain mt where "loadModule P req ctx mt = Inr m"
    using initSSR_modules [of P req ctx rs u ms m] by auto
  from loadModule_exclusive [OF this]
  show "\<not> (redirect m \<noteq> None \<and> error m \<noteq> None)"
    by auto
qed (auto simp: resolve_response_def split: option.splits)

text \<open>
  The module of the home page whose fetcher answers 302 without a \<^verbatim>\<open>Location\<close> header:
  it carries the error and no redirect.
\<close>

theorem redirect_error_exclusive_witness:
  "loadModule example_platform (request_for ''/'') []
     (home_match, data_route (String ''component'') Undefined moved_nowhere)
     = Inr \<lparr>url = req_url (request_for ''/''), filename = ''./routes/index.tsx'',
            defaultExport = String ''component'', dataCacheTtl = Undefined, data = None,
            error = Some \<lparr>message = ''Missing the `Location` header'', error_status = 400\<rparr>,
            redirect = None\<rparr> \<and>
   \<not> (redirect \<lparr>url = req_url (request_for ''/''), filename = ''./routes/index.tsx'',
            defaultExport = String ''component'', dataCacheTtl = Undefined, data = None,
            error = Some \<lparr>message = ''Missing the `Location` header'', error_status = 400\<rparr>,
            redirect = None\<rparr> \<noteq> None \<and>
      error \<lparr>url = req_url (request_for ''/''), filename = ''./routes/index.tsx'',
            defaultExport = String ''component'', dataCacheTtl = Undefined, data = None,
            error = Some \<lparr>message = ''Missing the `Location` header'', error_status = 400\<rparr>,
            redirect = None\<rparr> \<noteq> None)"
proof -
  let ?m = "\<lparr>url = req_url (request_for ''/''), filename = ''./routes/index.tsx'',
            defaultExport = String ''component'', dataCacheTtl = Undefined, data = None,
            error = Some \<lparr>message = ''Missing the `Location` header'', error_status = 400\<rparr>,
            redirect = None\<rparr>"
  have l: "loadModule example_platform (request_for ''/'') []
     (home_match, data_route (String ''component'') Undefined moved_nowhere) = Inr ?m"
    by (simp add: example_route_defs example_load_defs)
  from redirect_error_exclusive [of example_platform "request_for ''/''" "[]"] l
  have "\<not> (redirect ?m \<noteq> None \<and> error ?m \<noteq> None)"
    by blast
  with l show ?thesis
    by blast
qed

section \<open>Properties of the render pipeline\<close>

lemmas example_fetch_defs =
  fetch_def ssr_stage_def initSSR_def render_def render_failed_def finish_def static_stage_def
  start_def pass_handlers_def options_for_def custom_options_def template_def text_callback_def
  failing_callback_def silent_callback_def collect_styles_def style_modules_def home_module_def
  headers_append_def headers_get_def non_cacheable_def tag_def stateless_def fallible_def
  element_of_def custom_element_def failure_body_element_def undefined_callback_def
  custom_failing_options_def Let_def

subsection \<open>Redirects\<close>

lemma first_redirect_Some:
  "first_redirect ms = Some r \<Longrightarrow>
     \<exists>front m rest. ms = front @ m # rest \<and> (\<forall>x\<in>set front. redirect x = None) \<and> redirect m = Some r"
proof (induction ms)
  case Nil
  then show ?case by simp
next
  case (Cons a ms)
  show ?case
  proof (cases "redirect a")
    case None
    with Cons.prems have "first_redirect ms = Some r" by simp
    from Cons.IH [OF this] obtain front m rest
      where "ms = front @ m # rest" "\<forall>x\<in>set front. redirect x = None" "redirect m = Some r"
      by blast
    with None have "a # ms = (a # front) @ m # rest \<and> (\<forall>x\<in>set (a # front). redirect x = None) \<and> redirect m = Some r"
      by simp
    then show ?thesis by blast
  next
    case (Some r')
    with Cons.prems have "r' = r" by simp
    with Some have "a # ms = [] @ a # ms \<and> (\<forall>x\<in>set []. redirect x = None) \<and> redirect a = Some r"
      by simp
    then show ?thesis by blast
  qed
qed

lemma first_redirect_None: "first_redirect ms = None \<longleftrightarrow> (\<forall>m\<in>set ms. redirect m = None)"
  by (induction ms) (auto split: option.splits)

text \<open>
  C3.  When a render callback is supplied and a module of the list that \<^verbatim>\<open>initSSR\<close>
  returns carries a redirect, \<^verbatim>\<open>fetch\<close> returns at once: the response has no body and
  the status and headers of the redirect of the first such module in list order.
  The response is the same whatever the render callback, the template and the
  caller's handlers are: the callback is not asked, nothing is rewritten, and no header
  is computed.
\<close>

theorem redirect_short_circuit:
  assumes "ssrHandler options = Some callrest"
    and "initSSR P req ctx (routes options) = Inr (u, ms)"
    and "m \<in> set ms" and "redirect m \<noteq> None"
  shows "\<exists>front m' rest r. ms = front @ m' # rest \<and> (\<forall>x\<in>set front. redirect x = None) \<and>
           redirect m' = Some r \<and>
           fetch P req ctx options =
             Inr \<lparr>status = redirect_status r, headers = redirect_headers r, body = NoBody\<rparr> \<and>
           (\<forall>callrest' template custom.
              fetch P req ctx (options\<lparr>ssrHandler := Some callrest', indexHtml := template,
                                       customHTMLRewriter := custom\<rparr>) =
                Inr \<lparr>status = redirect_status r, headers = redirect_headers r, body = NoBody\<rparr>)"
proof -
  from assms(3,4) have "first_redirect ms \<noteq> None"
    by (auto simp: first_redirect_None)
  then obtain r where r: "first_redirect ms = Some r"
    by auto
  from first_redirect_Some [OF r] obtain front m' rest
    where split: "ms = front @ m' # rest" "\<forall>x\<in>set front. redirect x = None" "redirect m' = Some r"
    by blast
  have "fetch P req ctx options =
      Inr \<lparr>status = redirect_status r, headers = redirect_headers r, body = NoBody\<rparr>"
    using assms(1,2) r by (simp add: fetch_def ssr_stage_def)
  moreover have "fetch P req ctx (options\<lparr>ssrHandler := Some callrest', indexHtml := template,
                                       customHTMLRewriter := custom\<rparr>) =
      Inr \<lparr>status = redirect_status r, headers = redirect_headers r, body = NoBody\<rparr>"
    for callrest' template custom
    using assms(2) r by (simp add: fetch_def ssr_stage_def)
  ultimately show ?thesis
    using split by blast
qed

text \<open>
  The home page's fetcher answers 302 with \<^verbatim>\<open>Location: /login\<close>: the response is an
  empty 302 with that header.
\<close>

theorem redirect_short_circuit_witness:
  "ssrHandler (options_for [data_route (String ''component'') Undefined moved] False
      (Some text_callback)) = Some text_callback \<and>
   initSSR example_platform (request_for ''/'') []
      (routes (options_for [data_route (String ''component'') Undefined moved] False
         (Some text_callback))) =
     Inr (req_url (request_for ''/''),
          [home_module Undefined
             (Some \<lparr>redirect_headers = [(''Location'', ''/login'')], redirect_status = 302\<rparr>)]) \<and>
   redirect (home_module Undefined
      (Some \<lparr>redirect_headers = [(''Location'', ''/login'')], redirect_status = 302\<rparr>)) \<noteq> None \<and>
   fetch example_platform (request_for ''/'') []
      (options_for [data_route (String ''component'') Undefined moved] False (Some text_callback)) =
     Inr \<lparr>status = 302, headers = [(''Location'', ''/login'')], body = NoBody\<rparr>"
proof -
  let ?options = "options_for [data_route (String ''component'') Undefined moved] False
      (Some text_callback)"
  let ?r = "\<lparr>redirect_headers = [(''Location'', ''/login'')], redirect_status = 302\<rparr>"
  let ?m = "home_module Undefined (Some ?r)"
  have h1: "ssrHandler ?options = Some text_callback"
    by (simp add: options_for_def)
  have h2: "initSSR example_platform (request_for ''/'') [] (routes ?options) =
      Inr (req_url (request_for ''/''), [?m])"
    by (simp add: example_fetch_defs example_route_defs example_load_defs example_match_defs)
  have h3: "?m \<in> set [?m]"
    by simp
  have h4: "redirect ?m \<noteq> None"
    by (simp add: home_module_def)
  from redirect_short_circuit [OF h1 h2 h3 h4] obtain front m' rest r
    where split: "[?m] = front @ m' # rest" "redirect m' = Some r"
      and f: "fetch example_platform (request_for ''/'') [] ?options =
        Inr \<lparr>status = redirect_status r, headers = redirect_headers r, body = NoBody\<rparr>"
    by blast
  from split(1) have "m' = ?m"
    by (simp add: Cons_eq_append_conv)
  with split(2) have "r = ?r"
    by (simp add: home_module_def)
  with f h1 h2 h4 show ?thesis
    by simp
qed

subsection \<open>The pass over the template\<close>

lemma run_handlers_append:
  "run_handlers (a @ b) el0 el st =
     (case run_handlers a el0 el st of
        Inl e \<Rightarrow> Inl e
      | Inr (el', st') \<Rightarrow> run_handlers b el0 el' st')"
  by (induction a el0 el st rule: run_handlers.induct) (auto split: sum.splits prod.splits)

lemma run_handlers_custom:
  "run_handlers (map (\<lambda>(selector, handlers). (selector, stateless (custom_element handlers))) cs)
       el0 el st =
     Inr (run_custom cs el0 el, st)"
  by (induction cs el0 el rule: run_custom.induct) (auto simp: stateless_def)

lemma run_custom_none:
  "\<forall>c\<in>set cs. \<not> fst c el0 \<Longrightarrow> run_custom cs el0 el = el"
  by (induction cs el0 el rule: run_custom.induct) auto

lemma pass_handlers_marker:
  assumes "tagName el0 \<notin> {''link'', ''script'', ''head'', ''body''}"
  shows "run_handlers (pass_handlers P options) el0 el st =
           Inr (run_custom (customHTMLRewriter options) el0 el, st)"
  using assms
  by (simp add: pass_handlers_def run_handlers_append run_handlers_custom tag_def)

lemma pass_handlers_return:
  "\<exists>r. run_handlers (pass_handlers P options) el0 el st = Inr r"
  by (simp add: pass_handlers_def run_handlers_append run_handlers_custom tag_def stateless_def
                scriptHandler_def commonHandler_def Let_def)

lemma marker_handlers_return:
  assumes "\<And>el st. \<exists>r. hb el st = Inr r"
  shows "\<exists>r. run_handlers ([(tag ''ssr-head'', stateless f), (tag ''ssr-body'', hb)] @
                 pass_handlers P options) el0 el st = Inr r"
proof -
  have "\<exists>r. run_handlers [(tag ''ssr-head'', stateless f), (tag ''ssr-body'', hb)] el0 el st = Inr r"
    using assms [of "f el" st] assms [of el st] by (auto simp: stateless_def)
  then obtain el1 st1 where a: "run_handlers [(tag ''ssr-head'', stateless f), (tag ''ssr-body'', hb)]
      el0 el st = Inr (el1, st1)"
    by force
  from pass_handlers_return [of P options el0 el1 st1] obtain r
    where "run_handlers (pass_handlers P options) el0 el1 st1 = Inr r"
    by blast
  then have "run_handlers ([(tag ''ssr-head'', stateless f), (tag ''ssr-body'', hb)] @
      pass_handlers P options) el0 el st = Inr r"
    by (simp only: run_handlers_append a sum.case prod.case)
  then show ?thesis
    by blast
qed

lemma marker_body:
  assumes "tagName el0 = ''ssr-body''"
  shows "run_handlers ([(tag ''ssr-head'', hh), (tag ''ssr-body'', hb)] @ pass_handlers P options)
           el0 el0 st =
         (case hb el0 st of
            Inl e \<Rightarrow> Inl e
          | Inr (el', st') \<Rightarrow> Inr (run_custom (customHTMLRewriter options) el0 el', st'))"
  using assms
  by (auto simp: run_handlers_append pass_handlers_marker tag_def split: sum.splits)

lemma marker_head:
  assumes "tagName el0 = ''ssr-head''"
  shows "run_handlers ([(tag ''ssr-head'', hh), (tag ''ssr-body'', hb)] @ pass_handlers P options)
           el0 el0 st =
         (case hh el0 st of
            Inl e \<Rightarrow> Inl e
          | Inr (el', st') \<Rightarrow> Inr (run_custom (customHTMLRewriter options) el0 el', st'))"
  using assms
  by (auto simp: run_handlers_append pass_handlers_marker tag_def split: sum.splits)

lemma rewrite_return:
  assumes "\<And>el0 el st. \<exists>r. run_handlers regs el0 el st = Inr r"
  shows "\<exists>doc. rewrite regs ts st = Inr doc"
proof (induction ts arbitrary: st)
  case Nil
  then show ?case by simp
next
  case (Cons t ts)
  obtain el' st' where r: "run_handlers regs (element_of t) (element_of t) st = Inr (el', st')"
    using assms [of "element_of t" "element_of t" st] by auto
  obtain els where "rewrite regs ts st' = Inr els"
    using Cons [of st'] by blast
  with r show ?case by simp
qed

lemma rewrite_nth:
  "rewrite regs ts st = Inr doc \<Longrightarrow>
     length doc = length ts \<and>
     (\<forall>i<length ts. \<exists>st' st''.
        run_handlers regs (element_of (ts ! i)) (element_of (ts ! i)) st' = Inr (doc ! i, st''))"
proof (induction ts arbitrary: st doc)
  case Nil
  then show ?case by simp
next
  case (Cons t ts)
  from Cons.prems obtain el' st' els
    where r: "run_handlers regs (element_of t) (element_of t) st = Inr (el', st')"
      and w: "rewrite regs ts st' = Inr els" and d: "doc = el' # els"
    by (auto split: sum.splits prod.splits)
  from Cons.IH [OF w] have ih: "length els = length ts"
    "\<forall>i<length ts. \<exists>st' st''.
        run_handlers regs (element_of (ts ! i)) (element_of (ts ! i)) st' = Inr (els ! i, st'')"
    by auto
  have "\<exists>st' st''. run_handlers regs (element_of ((t # ts) ! i)) (element_of ((t # ts) ! i)) st'
      = Inr (doc ! i, st'')" if "i < length (t # ts)" for i
  proof (cases i)
    case 0
    with r d show ?thesis by auto
  next
    case (Suc j)
    with that have "j < length ts" by simp
    with ih(2) Suc d show ?thesis by auto
  qed
  with ih(1) d show ?case by simp
qed

text \<open>
  The document of a pass whose two marker handlers do not raise: it has one element
  per start tag, and each marker is what its handler made of it, passed on to the
  caller's handlers.
\<close>

lemma marker_document:
  assumes "rewrite ([(tag ''ssr-head'', stateless fh), (tag ''ssr-body'', stateless fb)] @
              pass_handlers P options) ts st = Inr doc"
  shows "length doc = length ts \<and>
         (\<forall>i<length ts.
            (fst (ts ! i) = ''ssr-body'' \<longrightarrow>
               doc ! i = run_custom (customHTMLRewriter options) (element_of (ts ! i))
                           (fb (element_of (ts ! i)))) \<and>
            (fst (ts ! i) = ''ssr-head'' \<longrightarrow>
               doc ! i = run_custom (customHTMLRewriter options) (element_of (ts ! i))
                           (fh (element_of (ts ! i)))))"
proof -
  let ?regs = "[(tag ''ssr-head'', stateless fh), (tag ''ssr-body'', stateless fb)] @
              pass_handlers P options"
  note n = rewrite_nth [OF assms]
  have "doc ! i = run_custom (customHTMLRewriter options) (element_of (ts ! i))
                    (fb (element_of (ts ! i)))"
    if "i < length ts" "fst (ts ! i) = ''ssr-body''" for i
  proof -
    from n that(1) obtain st' st'' where
      e: "run_handlers ?regs (element_of (ts ! i)) (element_of (ts ! i)) st' = Inr (doc ! i, st'')"
      by blast
    have "tagName (element_of (ts ! i)) = ''ssr-body''"
      using that(2) by (simp add: element_of_def)
    from e [unfolded marker_body [OF this]] show ?thesis
      by (simp add: stateless_def)
  qed
  moreover have "doc ! i = run_custom (customHTMLRewriter options) (element_of (ts ! i))
                    (fh (element_of (ts ! i)))"
    if "i < length ts" "fst (ts ! i) = ''ssr-head''" for i
  proof -
    from n that(1) obtain st' st'' where
      e: "run_handlers ?regs (element_of (ts ! i)) (element_of (ts ! i)) st' = Inr (doc ! i, st'')"
      by blast
    have "tagName (element_of (ts ! i)) = ''ssr-head''"
      using that(2) by (simp add: element_of_def)
    from e [unfolded marker_head [OF this]] show ?thesis
      by (simp add: stateless_def)
  qed
  ultimately show ?thesis
    using n by blast
qed

lemma run_custom_mutations: "\<exists>more. mutations (run_custom cs el0 el) = mutations el @ more"
proof (induction cs el0 el rule: run_custom.induct)
  case (1 el0 el)
  then show ?case by simp
next
  case (2 sel h cs el0 el)
  have step: "\<exists>more. mutations (foldl apply_edit e es) = mutations e @ more" for e es
  proof (induction es arbitrary: e)
    case Nil
    then show ?case by simp
  next
    case (Cons a es)
    obtain more where "mutations (foldl apply_edit (apply_edit e a) es) = mutations (apply_edit e a) @ more"
      using Cons [of "apply_edit e a"] by blast
    moreover have "\<exists>one. mutations (apply_edit e a) = mutations e @ one"
      by (cases a) (simp_all add: setAttribute_def)
    ultimately show ?case
      by auto
  qed
  show ?case
  proof (cases "sel el0")
    case True
    with 2 obtain more where "mutations (run_custom ((sel, h) # cs) el0 el) =
        mutations (custom_element h el) @ more"
      by auto
    moreover obtain more' where "mutations (custom_element h el) = mutations el @ more'"
      using step [of el "h el"] by (auto simp: custom_element_def)
    ultimately show ?thesis
      by simp
  next
    case False
    with 2 show ?thesis by simp
  qed
qed

subsection \<open>A render that returns a string\<close>

text \<open>
  The response of \<^verbatim>\<open>fetch\<close> when the callback, asked about the modules that \<^verbatim>\<open>initSSR\<close>
  returned, answers with a string and the styles are collected: status 200, the cache
  policy of those modules, and a document in which every body marker is replaced by the
  callback's output and every head marker is given the pushed fragments, the styles
  and the scripts of those modules, then handed to the caller's handlers.
\<close>

lemma fetch_rendered:
  assumes "ssrHandler options = Some callback"
    and "initSSR P req ctx (routes options) = Inr (u, ms)"
    and "first_redirect ms = None"
    and "callback \<lparr>ssr_url = u, modules = ms, headCollection = []\<rparr>
           = (Returned (String out), pushed) \<and>
         collect_styles P (isDev options) ms = Inr styles"
  shows "\<exists>doc.
      fetch P req ctx options =
        Inr \<lparr>status = 200,
             headers = [(''Content-Type'', ''text/html; charset=utf-8''),
                        (''Cache-Control'', cache_control P ms)],
             body = Document doc\<rparr> \<and>
      length doc = length (indexHtml options) \<and>
      (\<forall>i<length (indexHtml options).
         (fst (indexHtml options ! i) = ''ssr-body'' \<longrightarrow>
            doc ! i = run_custom (customHTMLRewriter options) (element_of (indexHtml options ! i))
                        (replace (element_of (indexHtml options ! i)) out)) \<and>
         (fst (indexHtml options ! i) = ''ssr-head'' \<longrightarrow>
            doc ! i = run_custom (customHTMLRewriter options) (element_of (indexHtml options ! i))
                        (ssr_head_element P ms (pushed @ styles)
                           (element_of (indexHtml options ! i)))))"
proof -
  let ?regs = "[(tag ''ssr-head'', stateless (ssr_head_element P ms (pushed @ styles))),
                (tag ''ssr-body'', stateless (ssr_body_element out))] @ pass_handlers P options"
  have "\<exists>r. run_handlers ?regs el0 el st = Inr r" for el0 el st
    by (rule marker_handlers_return) (simp add: stateless_def)
  then obtain doc where
    doc: "rewrite ?regs (indexHtml options) \<lparr>nomoduleInserted = False, handled = False\<rparr> = Inr doc"
    using rewrite_return [of ?regs] by blast
  have s: "ssr_stage P req ctx options start =
      Inr (Inr \<lparr>registered = [(tag ''ssr-head'', stateless (ssr_head_element P ms (pushed @ styles))),
                             (tag ''ssr-body'', stateless (ssr_body_element out))],
                out_headers = [(''Content-Type'', ''text/html; charset=utf-8''),
                               (''Cache-Control'', cache_control P ms)],
                ssr = True\<rparr>)"
    using assms by (simp add: ssr_stage_def render_def start_def headers_append_def)
  have "fetch P req ctx options =
      Inr \<lparr>status = 200,
           headers = [(''Content-Type'', ''text/html; charset=utf-8''),
                      (''Cache-Control'', cache_control P ms)],
           body = Document doc\<rparr>"
    using doc by (simp add: fetch_def s finish_def static_stage_def)
  with marker_document [OF doc] show ?thesis
    by (simp add: ssr_body_element_def)
qed

subsection \<open>Modules dropped before the redirect scan\<close>

text \<open>
  C9.  \<^verbatim>\<open>initSSR\<close> drops the modules without a default export before \<^verbatim>\<open>fetch\<close> looks for
  redirects.  So a loaded module that carries a redirect but has no default export is
  not in the list \<^verbatim>\<open>initSSR\<close> returns; a redirect response, if there is one, comes from
  a module that survived; and when no surviving module redirects, \<^verbatim>\<open>fetch\<close> goes on to
  render over the surviving modules: the callback is asked about exactly these, and
  when it answers with a string (and the styles are collected) the response is a 200
  page whose body markers hold that string, whose head markers hold the fragments,
  styles and scripts of the surviving modules, and whose cache policy is theirs.
\<close>

theorem redirect_dropped_with_module:
  assumes "ssrHandler options = Some callback"
    and "matchRoutes P (routes options) (req_url req) \<noteq> []"
    and "Promise_all (map (loadModule P req ctx) (matchRoutes P (routes options) (req_url req)))
           = Inr loaded"
    and "m \<in> set loaded" and "redirect m \<noteq> None" and "defaultExport m = Undefined"
  shows "initSSR P req ctx (routes options) =
           Inr (req_url req, filter (\<lambda>x. defaultExport x \<noteq> Undefined) loaded) \<and>
         m \<notin> set (filter (\<lambda>x. defaultExport x \<noteq> Undefined) loaded) \<and>
         (\<forall>response. ssr_stage P req ctx options start = Inr (Inl response) \<longrightarrow>
            (\<exists>m'\<in>set (filter (\<lambda>x. defaultExport x \<noteq> Undefined) loaded).
               redirect m' = Some \<lparr>redirect_headers = headers response,
                                    redirect_status = status response\<rparr>)) \<and>
         (first_redirect (filter (\<lambda>x. defaultExport x \<noteq> Undefined) loaded) = None \<longrightarrow>
            fetch P req ctx options =
              finish P req options
                (render P options callback (req_url req)
                   (filter (\<lambda>x. defaultExport x \<noteq> Undefined) loaded) start)) \<and>
         (first_redirect (filter (\<lambda>x. defaultExport x \<noteq> Undefined) loaded) = None \<longrightarrow>
            (\<forall>out pushed styles.
               callback \<lparr>ssr_url = req_url req,
                         modules = filter (\<lambda>x. defaultExport x \<noteq> Undefined) loaded,
                         headCollection = []\<rparr> = (Returned (String out), pushed) \<and>
               collect_styles P (isDev options)
                 (filter (\<lambda>x. defaultExport x \<noteq> Undefined) loaded) = Inr styles \<longrightarrow>
               (\<exists>doc.
                  fetch P req ctx options =
                    Inr \<lparr>status = 200,
                         headers = [(''Content-Type'', ''text/html; charset=utf-8''),
                                    (''Cache-Control'',
                                     cache_control P
                                       (filter (\<lambda>x. defaultExport x \<noteq> Undefined) loaded))],
                         body = Document doc\<rparr> \<and>
                  length doc = length (indexHtml options) \<and>
                  (\<forall>i<length (indexHtml options).
                     (fst (indexHtml options ! i) = ''ssr-body'' \<longrightarrow>
                        doc ! i = run_custom (customHTMLRewriter options)
                                    (element_of (indexHtml options ! i))
                                    (replace (element_of (indexHtml options ! i)) out)) \<and>
                     (fst (indexHtml options ! i) = ''ssr-head'' \<longrightarrow>
                        doc ! i = run_custom (customHTMLRewriter options)
                                    (element_of (indexHtml options ! i))
                                    (ssr_head_element P
                                       (filter (\<lambda>x. defaultExport x \<noteq> Undefined) loaded)
                                       (pushed @ styles)
                                       (element_of (indexHtml options ! i))))))))"
proof -
  let ?ms = "filter (\<lambda>x. defaultExport x \<noteq> Undefined) loaded"
  have init: "initSSR P req ctx (routes options) = Inr (req_url req, ?ms)"
    using assms(2,3) by (simp add: initSSR_def Let_def)
  have gone: "m \<notin> set ?ms"
    using assms(6) by simp
  have resp: "\<exists>m'\<in>set ?ms. redirect m' = Some \<lparr>redirect_headers = headers response,
                                    redirect_status = status response\<rparr>"
    if "ssr_stage P req ctx options start = Inr (Inl response)" for response
  proof -
    from that assms(1) init obtain r where r: "first_redirect ?ms = Some r"
      and resp: "response = \<lparr>status = redirect_status r, headers = redirect_headers r, body = NoBody\<rparr>"
      by (auto simp: ssr_stage_def split: option.splits)
    from first_redirect_Some [OF r] obtain front m' rest
      where "?ms = front @ m' # rest" "redirect m' = Some r"
      by blast
    then have "m' \<in> set ?ms"
      by (metis in_set_conv_decomp)
    with \<open>redirect m' = Some r\<close> resp show ?thesis
      by auto
  qed
  have go: "fetch P req ctx options = finish P req options (render P options callback (req_url req) ?ms start)"
    if "first_redirect ?ms = None"
    using that assms(1) init by (simp add: fetch_def ssr_stage_def)
  have shown: "\<exists>doc.
      fetch P req ctx options =
        Inr \<lparr>status = 200,
             headers = [(''Content-Type'', ''text/html; charset=utf-8''),
                        (''Cache-Control'', cache_control P ?ms)],
             body = Document doc\<rparr> \<and>
      length doc = length (indexHtml options) \<and>
      (\<forall>i<length (indexHtml options).
         (fst (indexHtml options ! i) = ''ssr-body'' \<longrightarrow>
            doc ! i = run_custom (customHTMLRewriter options) (element_of (indexHtml options ! i))
                        (replace (element_of (indexHtml options ! i)) out)) \<and>
         (fst (indexHtml options ! i) = ''ssr-head'' \<longrightarrow>
            doc ! i = run_custom (customHTMLRewriter options) (element_of (indexHtml options ! i))
                        (ssr_head_element P ?ms (pushed @ styles)
                           (element_of (indexHtml options ! i)))))"
    if "first_redirect ?ms = None"
      and "callback \<lparr>ssr_url = req_url req, modules = ?ms, headCollection = []\<rparr>
             = (Returned (String out), pushed) \<and>
           collect_styles P (isDev options) ?ms = Inr styles"
    for out pushed styles
    using fetch_rendered [OF assms(1) init that(1)] that(2) by blast
  from init gone resp go shown show ?thesis
    by blast
qed

text \<open>
  The only route's module answers its data fetch with a redirect and exports no
  default: no module survives, the callback is asked about the empty list, and its
  output and its title are in the page that comes back with status 200.
\<close>

theorem redirect_dropped_with_module_witness:
  "ssrHandler (options_for [data_route Undefined Undefined moved] False (Some text_callback))
     = Some text_callback \<and>
   matchRoutes example_platform
      (routes (options_for [data_route Undefined Undefined moved] False (Some text_callback)))
      (req_url (request_for ''/'')) \<noteq> [] \<and>
   Promise_all (map (loadModule example_platform (request_for ''/'') [])
      (matchRoutes example_platform
         (routes (options_for [data_route Undefined Undefined moved] False (Some text_callback)))
         (req_url (request_for ''/'')))) =
     Inr [(home_module Undefined
             (Some \<lparr>redirect_headers = [(''Location'', ''/login'')], redirect_status = 302\<rparr>))
          \<lparr>defaultExport := Undefined\<rparr>] \<and>
   initSSR example_platform (request_for ''/'') []
      (routes (options_for [data_route Undefined Undefined moved] False (Some text_callback))) =
     Inr (req_url (request_for ''/''), []) \<and>
   text_callback \<lparr>ssr_url = req_url (request_for ''/''), modules = [], headCollection = []\<rparr> =
     (Returned (String ''<h1>Hello</h1>''), [''<title>Hello</title>'']) \<and>
   (\<exists>doc. fetch example_platform (request_for ''/'') []
             (options_for [data_route Undefined Undefined moved] False (Some text_callback)) =
           Inr \<lparr>status = 200,
                headers = [(''Content-Type'', ''text/html; charset=utf-8''),
                           (''Cache-Control'', ''public, max-age=0, must-revalidate'')],
                body = Document doc\<rparr> \<and>
          mutations (doc ! 2) = [Before ''<title>Hello</title>'', Remove] \<and>
          mutations (doc ! 4) = [Replace ''<h1>Hello</h1>''])"
proof -
  let ?options = "options_for [data_route Undefined Undefined moved] False (Some text_callback)"
  let ?m = "(home_module Undefined
             (Some \<lparr>redirect_headers = [(''Location'', ''/login'')], redirect_status = 302\<rparr>))
          \<lparr>defaultExport := Undefined\<rparr>"
  have h1: "ssrHandler ?options = Some text_callback"
    by (simp add: options_for_def)
  have h2: "matchRoutes example_platform (routes ?options) (req_url (request_for ''/'')) \<noteq> []"
    by (simp add: options_for_def example_route_defs example_match_defs request_for_def example_platform_def)
  have h3: "Promise_all (map (loadModule example_platform (request_for ''/'') [])
      (matchRoutes example_platform (routes ?options) (req_url (request_for ''/'')))) = Inr [?m]"
    by (simp add: options_for_def home_module_def example_route_defs example_load_defs example_match_defs)
  have h4: "?m \<in> set [?m]"
    by simp
  have h5: "redirect ?m \<noteq> None"
    by (simp add: home_module_def)
  have h6: "defaultExport ?m = Undefined"
    by simp
  have s: "filter (\<lambda>x. defaultExport x \<noteq> Undefined) [?m] = []"
    by simp
  have c: "text_callback \<lparr>ssr_url = req_url (request_for ''/''), modules = [], headCollection = []\<rparr>
      = (Returned (String ''<h1>Hello</h1>''), [''<title>Hello</title>''])"
    by (simp add: text_callback_def)
  have st: "collect_styles example_platform (isDev ?options) [] = Inr []"
    by (simp add: collect_styles_def)
  have t: "length (indexHtml ?options) = 5" "indexHtml ?options ! 2 = (''ssr-head'', [])"
    "indexHtml ?options ! 4 = (''ssr-body'', [])" "customHTMLRewriter ?options = []"
    by (simp_all add: options_for_def template_def)
  note r = redirect_dropped_with_module [OF h1 h2 h3 h4 h5 h6, unfolded s]
  from r have init: "initSSR example_platform (request_for ''/'') [] (routes ?options) =
      Inr (req_url (request_for ''/''), [])"
    by blast
  note rendered = r [THEN conjunct2, THEN conjunct2, THEN conjunct2, THEN conjunct2, rule_format,
      OF first_redirect.simps(1) conjI [OF c st]]
  from rendered obtain doc where
    f: "fetch example_platform (request_for ''/'') [] ?options =
           Inr \<lparr>status = 200,
                headers = [(''Content-Type'', ''text/html; charset=utf-8''),
                           (''Cache-Control'', cache_control example_platform [])],
                body = Document doc\<rparr>"
    and m: "\<forall>i<length (indexHtml ?options).
       (fst (indexHtml ?options ! i) = ''ssr-body'' \<longrightarrow>
          doc ! i = run_custom (customHTMLRewriter ?options) (element_of (indexHtml ?options ! i))
                      (replace (element_of (indexHtml ?options ! i)) ''<h1>Hello</h1>'')) \<and>
       (fst (indexHtml ?options ! i) = ''ssr-head'' \<longrightarrow>
          doc ! i = run_custom (customHTMLRewriter ?options) (element_of (indexHtml ?options ! i))
                      (ssr_head_element example_platform [] ([''<title>Hello</title>''] @ [])
                         (element_of (indexHtml ?options ! i))))"
    by blast
  from m [rule_format, of 2] t have m2: "mutations (doc ! 2) = [Before ''<title>Hello</title>'', Remove]"
    by (simp add: ssr_head_element_def element_of_def before_def remove_def)
  from m [rule_format, of 4] t have m4: "mutations (doc ! 4) = [Replace ''<h1>Hello</h1>'']"
    by (simp add: element_of_def replace_def)
  from f have f': "fetch example_platform (request_for ''/'') [] ?options =
           Inr \<lparr>status = 200,
                headers = [(''Content-Type'', ''text/html; charset=utf-8''),
                           (''Cache-Control'', ''public, max-age=0, must-revalidate'')],
                body = Document doc\<rparr>"
    by (simp add: cache_control_def ttls_of_def)
  from h1 h2 h3 init c f' m2 m4 show ?thesis
    by blast
qed

subsection \<open>Render failure\<close>

lemma failure_handler_prints:
  assumes "stack_text err = Inr trace"
  shows "fallible (failure_body_element err) =
           stateless (\<lambda>el. replace el (''<code><pre>'' @ trace @ ''</pre></code>''))"
  using assms by (simp add: fun_eq_iff fallible_def failure_body_element_def stateless_def)

text \<open>
  C5, as the code has it.  When the render callback raises a value whose stack can be
  read and printed, the response has status 200 and the headers \<^verbatim>\<open>Content-Type\<close> and
  \<^verbatim>\<open>Cache-Control: public, max-age=0, must-revalidate\<close>, whatever the TTLs of the modules.
  In the document, the first edit of every \<^verbatim>\<open>ssr-body\<close> marker is its replacement by
  that stack trace between \<^verbatim>\<open><code><pre>\<close> and \<^verbatim>\<open></pre></code>\<close>, and the first edit of every
  \<^verbatim>\<open>ssr-head\<close> marker is its removal: none of the fragments the callback had pushed is
  inserted, and the response is the same whatever the callback had pushed before it
  raised.  The caller's own handlers run on the markers afterwards and may edit them
  further; when none of them selects a marker these are its only edits.
\<close>

theorem render_failure:
  assumes "ssrHandler options = Some callback"
    and "initSSR P req ctx (routes options) = Inr (u, ms)"
    and "first_redirect ms = None"
    and "callback \<lparr>ssr_url = u, modules = ms, headCollection = []\<rparr> = (Raised err, pushed)"
    and "stack_text err = Inr trace"
  shows "\<exists>doc. fetch P req ctx options =
             Inr \<lparr>status = 200,
                  headers = [(''Content-Type'', ''text/html; charset=utf-8''),
                             (''Cache-Control'', ''public, max-age=0, must-revalidate'')],
                  body = Document doc\<rparr> \<and>
           length doc = length (indexHtml options) \<and>
           (\<forall>i<length (indexHtml options).
              (fst (indexHtml options ! i) = ''ssr-body'' \<longrightarrow>
                 doc ! i = run_custom (customHTMLRewriter options) (element_of (indexHtml options ! i))
                             (replace (element_of (indexHtml options ! i))
                                (''<code><pre>'' @ trace @ ''</pre></code>'')) \<and>
                 (\<exists>more. mutations (doc ! i) =
                    Replace (''<code><pre>'' @ trace @ ''</pre></code>'') # more) \<and>
                 ((\<forall>c\<in>set (customHTMLRewriter options). \<not> fst c (element_of (indexHtml options ! i))) \<longrightarrow>
                    mutations (doc ! i) = [Replace (''<code><pre>'' @ trace @ ''</pre></code>'')])) \<and>
              (fst (indexHtml options ! i) = ''ssr-head'' \<longrightarrow>
                 doc ! i = run_custom (customHTMLRewriter options) (element_of (indexHtml options ! i))
                             (remove (element_of (indexHtml options ! i))) \<and>
                 (\<exists>more. mutations (doc ! i) = Remove # more) \<and>
                 ((\<forall>c\<in>set (customHTMLRewriter options). \<not> fst c (element_of (indexHtml options ! i))) \<longrightarrow>
                    mutations (doc ! i) = [Remove]))) \<and>
           (\<forall>callback' pushed'.
              callback' \<lparr>ssr_url = u, modules = ms, headCollection = []\<rparr> = (Raised err, pushed') \<longrightarrow>
              fetch P req ctx (options\<lparr>ssrHandler := Some callback'\<rparr>) = fetch P req ctx options)"
proof -
  let ?page = "''<code><pre>'' @ trace @ ''</pre></code>''"
  let ?regs = "[(tag ''ssr-head'', stateless remove),
                (tag ''ssr-body'', stateless (\<lambda>el. replace el ?page))] @ pass_handlers P options"
  note prints = failure_handler_prints [OF assms(5)]
  have "\<exists>r. run_handlers ?regs el0 el st = Inr r" for el0 el st
    by (rule marker_handlers_return) (simp add: stateless_def)
  then obtain doc where
    doc: "rewrite ?regs (indexHtml options) \<lparr>nomoduleInserted = False, handled = False\<rparr> = Inr doc"
    using rewrite_return [of ?regs] by blast
  have s: "ssr_stage P req ctx options start =
      Inr (Inr \<lparr>registered = [(tag ''ssr-head'', stateless remove),
                             (tag ''ssr-body'', stateless (\<lambda>el. replace el ?page))],
                out_headers = [(''Content-Type'', ''text/html; charset=utf-8''),
                               (''Cache-Control'', ''public, max-age=0, must-revalidate'')],
                ssr = True\<rparr>)"
    using assms(1-4)
    by (simp add: ssr_stage_def render_def render_failed_def start_def headers_append_def
                  non_cacheable_def prints)
  have f: "fetch P req ctx options =
      Inr \<lparr>status = 200,
           headers = [(''Content-Type'', ''text/html; charset=utf-8''),
                      (''Cache-Control'', ''public, max-age=0, must-revalidate'')],
           body = Document doc\<rparr>"
    using doc by (simp add: fetch_def s finish_def static_stage_def)
  note md = marker_document [OF doc]
  have b: "doc ! i = run_custom (customHTMLRewriter options) (element_of (indexHtml options ! i))
                        (replace (element_of (indexHtml options ! i)) ?page)"
    if "i < length (indexHtml options)" "fst (indexHtml options ! i) = ''ssr-body''" for i
    using md that by blast
  have h: "doc ! i = run_custom (customHTMLRewriter options) (element_of (indexHtml options ! i))
                        (remove (element_of (indexHtml options ! i)))"
    if "i < length (indexHtml options)" "fst (indexHtml options ! i) = ''ssr-head''" for i
    using md that by blast
  have b': "mutations (doc ! i) = [Replace ?page]"
    if "i < length (indexHtml options)" "fst (indexHtml options ! i) = ''ssr-body''"
       "\<forall>c\<in>set (customHTMLRewriter options). \<not> fst c (element_of (indexHtml options ! i))" for i
    using b [OF that(1,2)] run_custom_none [OF that(3)]
    by (simp add: replace_def element_of_def)
  have h': "mutations (doc ! i) = [Remove]"
    if "i < length (indexHtml options)" "fst (indexHtml options ! i) = ''ssr-head''"
       "\<forall>c\<in>set (customHTMLRewriter options). \<not> fst c (element_of (indexHtml options ! i))" for i
    using h [OF that(1,2)] run_custom_none [OF that(3)]
    by (simp add: remove_def element_of_def)
  have b'': "\<exists>more. mutations (doc ! i) = Replace ?page # more"
    if "i < length (indexHtml options)" "fst (indexHtml options ! i) = ''ssr-body''" for i
    using b [OF that]
      run_custom_mutations [of "customHTMLRewriter options" "element_of (indexHtml options ! i)"
        "replace (element_of (indexHtml options ! i)) ?page"]
    by (simp add: replace_def element_of_def)
  have h'': "\<exists>more. mutations (doc ! i) = Remove # more"
    if "i < length (indexHtml options)" "fst (indexHtml options ! i) = ''ssr-head''" for i
    using h [OF that]
      run_custom_mutations [of "customHTMLRewriter options" "element_of (indexHtml options ! i)"
        "remove (element_of (indexHtml options ! i))"]
    by (simp add: remove_def element_of_def)
  have all: "\<forall>i<length (indexHtml options).
      (fst (indexHtml options ! i) = ''ssr-body'' \<longrightarrow>
         doc ! i = run_custom (customHTMLRewriter options) (element_of (indexHtml options ! i))
                      (replace (element_of (indexHtml options ! i)) ?page) \<and>
         (\<exists>more. mutations (doc ! i) = Replace ?page # more) \<and>
         ((\<forall>c\<in>set (customHTMLRewriter options). \<not> fst c (element_of (indexHtml options ! i))) \<longrightarrow>
            mutations (doc ! i) = [Replace ?page])) \<and>
      (fst (indexHtml options ! i) = ''ssr-head'' \<longrightarrow>
         doc ! i = run_custom (customHTMLRewriter options) (element_of (indexHtml options ! i))
                      (remove (element_of (indexHtml options ! i))) \<and>
         (\<exists>more. mutations (doc ! i) = Remove # more) \<and>
         ((\<forall>c\<in>set (customHTMLRewriter options). \<not> fst c (element_of (indexHtml options ! i))) \<longrightarrow>
            mutations (doc ! i) = [Remove]))"
    using b h b' h' b'' h'' by blast
  have same: "fetch P req ctx (options\<lparr>ssrHandler := Some callback'\<rparr>) = fetch P req ctx options"
    if "callback' \<lparr>ssr_url = u, modules = ms, headCollection = []\<rparr> = (Raised err, pushed')"
    for callback' pushed'
    using assms(1-4) that
    by (simp add: fetch_def ssr_stage_def render_def render_failed_def finish_def static_stage_def
                  start_def pass_handlers_def)
  from f all same md show ?thesis
    by blast
qed

text \<open>
  The callback raises \<^verbatim>\<open>Error: boom\<close> after it has pushed a title: the body marker is
  replaced by the trace, the head marker is only removed.
\<close>

theorem render_failure_witness:
  "ssrHandler (options_for [home_route] False (Some failing_callback)) = Some failing_callback \<and>
   initSSR example_platform (request_for ''/'') []
      (routes (options_for [home_route] False (Some failing_callback))) =
     Inr (req_url (request_for ''/''), [home_module Undefined None]) \<and>
   first_redirect [home_module Undefined None] = None \<and>
   failing_callback \<lparr>ssr_url = req_url (request_for ''/''), modules = [home_module Undefined None],
                      headCollection = []\<rparr> =
     (Raised (Stack_prints ''Error: boom''), [''<title>Hello</title>'']) \<and>
   stack_text (Stack_prints ''Error: boom'') = Inr ''Error: boom'' \<and>
   (\<exists>doc. fetch example_platform (request_for ''/'') []
             (options_for [home_route] False (Some failing_callback)) =
           Inr \<lparr>status = 200,
                headers = [(''Content-Type'', ''text/html; charset=utf-8''),
                           (''Cache-Control'', ''public, max-age=0, must-revalidate'')],
                body = Document doc\<rparr> \<and>
          mutations (doc ! 2) = [Remove] \<and>
          mutations (doc ! 4) = [Replace ''<code><pre>Error: boom</pre></code>''])"
proof -
  let ?options = "options_for [home_route] False (Some failing_callback)"
  let ?err = "Stack_prints ''Error: boom''"
  have h1: "ssrHandler ?options = Some failing_callback"
    by (simp add: options_for_def)
  have h2: "initSSR example_platform (request_for ''/'') [] (routes ?options) =
      Inr (req_url (request_for ''/''), [home_module Undefined None])"
    by (simp add: example_fetch_defs example_route_defs example_load_defs example_match_defs)
  have h3: "first_redirect [home_module Undefined None] = None"
    by (simp add: home_module_def)
  have h4: "failing_callback \<lparr>ssr_url = req_url (request_for ''/''),
      modules = [home_module Undefined None], headCollection = []\<rparr> =
      (Raised ?err, [''<title>Hello</title>''])"
    by (simp add: failing_callback_def)
  have h5: "stack_text ?err = Inr ''Error: boom''"
    by simp
  have t: "length (indexHtml ?options) = 5" "indexHtml ?options ! 2 = (''ssr-head'', [])"
    "indexHtml ?options ! 4 = (''ssr-body'', [])" "customHTMLRewriter ?options = []"
    by (simp_all add: options_for_def template_def)
  from render_failure [OF h1 h2 h3 h4 h5] obtain doc where
    f: "fetch example_platform (request_for ''/'') [] ?options =
           Inr \<lparr>status = 200,
                headers = [(''Content-Type'', ''text/html; charset=utf-8''),
                           (''Cache-Control'', ''public, max-age=0, must-revalidate'')],
                body = Document doc\<rparr>"
    and m: "\<forall>i<length (indexHtml ?options).
      (fst (indexHtml ?options ! i) = ''ssr-body'' \<longrightarrow>
         ((\<forall>c\<in>set (customHTMLRewriter ?options). \<not> fst c (element_of (indexHtml ?options ! i))) \<longrightarrow>
            mutations (doc ! i) = [Replace (''<code><pre>'' @ ''Error: boom'' @ ''</pre></code>'')])) \<and>
      (fst (indexHtml ?options ! i) = ''ssr-head'' \<longrightarrow>
         ((\<forall>c\<in>set (customHTMLRewriter ?options). \<not> fst c (element_of (indexHtml ?options ! i))) \<longrightarrow>
            mutations (doc ! i) = [Remove]))"
    by blast
  from m [rule_format, of 2] t have "mutations (doc ! 2) = [Remove]"
    by simp
  moreover from m [rule_format, of 4] t
  have "mutations (doc ! 4) = [Replace ''<code><pre>Error: boom</pre></code>'']"
    by simp
  ultimately show ?thesis
    using f h1 h2 h3 h4 h5 by blast
qed

text \<open>
  C5 as the claim words it fails twice.  With a handler of the caller bound to
  \<^verbatim>\<open>ssr-body\<close>, which line 216 registers behind the one of the catch clause, the marker is
  replaced by the trace and then replaced again by the caller's content.  And when the
  callback throws \<^verbatim>\<open>undefined\<close>, reading \<^verbatim>\<open>error.stack\<close> raises inside the handler of the
  body marker: \<^verbatim>\<open>fetch\<close> rejects with that \<^verbatim>\<open>TypeError\<close> and there is no response at all.
\<close>

theorem render_failure_counterexample:
  "ssrHandler custom_failing_options = Some failing_callback \<and>
   failing_callback \<lparr>ssr_url = req_url (request_for ''/''), modules = [home_module Undefined None],
                      headCollection = []\<rparr> =
     (Raised (Stack_prints ''Error: boom''), [''<title>Hello</title>'']) \<and>
   edits_of (fetch example_platform (request_for ''/'') [] custom_failing_options) ! 4 =
     (''ssr-body'', [Replace ''<code><pre>Error: boom</pre></code>'', Replace ''<p>loading</p>'']) \<and>
   ssrHandler (options_for [home_route] False (Some undefined_callback)) = Some undefined_callback \<and>
   undefined_callback \<lparr>ssr_url = req_url (request_for ''/''),
                        modules = [home_module Undefined None], headCollection = []\<rparr> =
     (Raised (Stack_raises type_error), []) \<and>
   fetch example_platform (request_for ''/'') []
     (options_for [home_route] False (Some undefined_callback)) = Inl type_error"
  by (simp add: edits_of_def example_fetch_defs example_route_defs example_load_defs
                example_match_defs commonHandler_def append_content_def replace_def remove_def)

subsection \<open>The static template\<close>

text \<open>
  \<^verbatim>\<open>Headers.get\<close> joins the values of a repeated header, so that a request which carries
  \<^verbatim>\<open>If-Modified-Since\<close> twice is not answered with 304, even when both values are the
  modification time; the name of the header is matched without regard to case.
\<close>

lemma if_modified_since_examples:
  "fetch example_platform
     (request_for ''/''\<lparr>req_headers := [(''if-modified-since'', ''Thu, 01 Jan 2026 00:00:00 GMT'')]\<rparr>)
     [] (options_for [] False None) =
     Inr \<lparr>status = 304, headers = [], body = NoBody\<rparr>"
  "headers_get [(''If-Modified-Since'', ''Thu, 01 Jan 2026 00:00:00 GMT''),
                (''If-Modified-Since'', ''Thu, 01 Jan 2026 00:00:00 GMT'')] ''If-Modified-Since'' =
     Some ''Thu, 01 Jan 2026 00:00:00 GMT, Thu, 01 Jan 2026 00:00:00 GMT''"
  "map_sum id status (fetch example_platform
     (request_for ''/''\<lparr>req_headers := [(''If-Modified-Since'', ''Thu, 01 Jan 2026 00:00:00 GMT''),
                                         (''If-Modified-Since'', ''Thu, 01 Jan 2026 00:00:00 GMT'')]\<rparr>)
     [] (options_for [] False None)) = Inr 200"
  by (simp_all add: example_fetch_defs example_platform_def request_for_def ascii_lower_def
                    commonHandler_def append_content_def)

text \<open>
  C10, as the code has it.  When SSR does not run (no render callback is supplied, or
  the callback is asked and answers with a value that is not a string), \<^verbatim>\<open>fetch\<close> binds
  no handler of its own to the markers and takes the static path: a failure of
  \<^verbatim>\<open>lstat\<close> escapes; an \<^verbatim>\<open>If-Modified-Since\<close> header equal to the modification time gives
  an empty 304; otherwise the response is 200 with \<^verbatim>\<open>Last-Modified\<close> (when there is a
  modification time) and \<^verbatim>\<open>Cache-Control: public, max-age=0, must-revalidate\<close>, and its
  document is the template passed through the caller's handlers and the four handlers
  of every pass, a pass that does not raise.  Every \<^verbatim>\<open>ssr-head\<close> and \<^verbatim>\<open>ssr-body\<close> marker
  comes out as the caller's own handlers leave it: untouched, with no script or style
  put before it, when none of them selects it.
\<close>

theorem ssr_not_run:
  assumes "ssrHandler options = None \<or>
           (\<exists>callback u ms v pushed.
              ssrHandler options = Some callback \<and>
              initSSR P req ctx (routes options) = Inr (u, ms) \<and>
              first_redirect ms = None \<and>
              callback \<lparr>ssr_url = u, modules = ms, headCollection = []\<rparr> = (Returned v, pushed) \<and>
              (\<forall>out. v \<noteq> String out))"
  shows "\<exists>doc. rewrite (pass_handlers P options) (indexHtml options)
                  \<lparr>nomoduleInserted = False, handled = False\<rparr> = Inr doc \<and>
           fetch P req ctx options =
             (case lstat_mtime P of
                Inl e \<Rightarrow> Inl e
              | Inr None \<Rightarrow>
                  Inr \<lparr>status = 200,
                       headers = [(''Content-Type'', ''text/html; charset=utf-8''),
                                  (''Cache-Control'', ''public, max-age=0, must-revalidate'')],
                       body = Document doc\<rparr>
              | Inr (Some mtimeUTC) \<Rightarrow>
                  if headers_get (req_headers req) ''If-Modified-Since'' = Some mtimeUTC
                  then Inr \<lparr>status = 304, headers = [], body = NoBody\<rparr>
                  else Inr \<lparr>status = 200,
                            headers = [(''Content-Type'', ''text/html; charset=utf-8''),
                                       (''Last-Modified'', mtimeUTC),
                                       (''Cache-Control'', ''public, max-age=0, must-revalidate'')],
                            body = Document doc\<rparr>) \<and>
           length doc = length (indexHtml options) \<and>
           (\<forall>i<length (indexHtml options).
              fst (indexHtml options ! i) = ''ssr-head'' \<or> fst (indexHtml options ! i) = ''ssr-body'' \<longrightarrow>
                doc ! i = run_custom (customHTMLRewriter options) (element_of (indexHtml options ! i))
                            (element_of (indexHtml options ! i)) \<and>
                ((\<forall>c\<in>set (customHTMLRewriter options). \<not> fst c (element_of (indexHtml options ! i))) \<longrightarrow>
                   doc ! i = element_of (indexHtml options ! i)))"
proof -
  obtain doc where doc: "rewrite (pass_handlers P options) (indexHtml options)
      \<lparr>nomoduleInserted = False, handled = False\<rparr> = Inr doc"
    using rewrite_return [of "pass_handlers P options"] pass_handlers_return [of P options]
    by blast
  have s: "ssr_stage P req ctx options start = Inr (Inr start)"
    using assms
    by (auto simp: ssr_stage_def render_def split: option.splits js_value.splits)
  have f: "fetch P req ctx options = finish P req options start"
    by (simp add: fetch_def s)
  note n = rewrite_nth [OF doc]
  have m: "doc ! i = run_custom (customHTMLRewriter options) (element_of (indexHtml options ! i))
                        (element_of (indexHtml options ! i))"
    if "i < length (indexHtml options)"
       "fst (indexHtml options ! i) = ''ssr-head'' \<or> fst (indexHtml options ! i) = ''ssr-body''" for i
  proof -
    from n that(1) obtain st' st'' where
      e: "run_handlers (pass_handlers P options) (element_of (indexHtml options ! i))
            (element_of (indexHtml options ! i)) st' = Inr (doc ! i, st'')"
      by blast
    have "tagName (element_of (indexHtml options ! i))
        \<notin> {''link'', ''script'', ''head'', ''body''}"
      using that(2) by (auto simp: element_of_def)
    from e [unfolded pass_handlers_marker [OF this]] show ?thesis
      by simp
  qed
  have m': "doc ! i = element_of (indexHtml options ! i)"
    if "i < length (indexHtml options)"
       "fst (indexHtml options ! i) = ''ssr-head'' \<or> fst (indexHtml options ! i) = ''ssr-body''"
       "\<forall>c\<in>set (customHTMLRewriter options). \<not> fst c (element_of (indexHtml options ! i))" for i
    using m [OF that(1,2)] run_custom_none [OF that(3)] by simp
  have e: "finish P req options start =
           (case lstat_mtime P of
              Inl e \<Rightarrow> Inl e
            | Inr None \<Rightarrow>
                Inr \<lparr>status = 200,
                     headers = [(''Content-Type'', ''text/html; charset=utf-8''),
                                (''Cache-Control'', ''public, max-age=0, must-revalidate'')],
                     body = Document doc\<rparr>
            | Inr (Some mtimeUTC) \<Rightarrow>
                if headers_get (req_headers req) ''If-Modified-Since'' = Some mtimeUTC
                then Inr \<lparr>status = 304, headers = [], body = NoBody\<rparr>
                else Inr \<lparr>status = 200,
                          headers = [(''Content-Type'', ''text/html; charset=utf-8''),
                                     (''Last-Modified'', mtimeUTC),
                                     (''Cache-Control'', ''public, max-age=0, must-revalidate'')],
                          body = Document doc\<rparr>)"
    using doc
    by (cases "lstat_mtime P" rule: sum.exhaust [case_names Inl Inr];
        cases "projr (lstat_mtime P)")
       (simp_all add: finish_def static_stage_def start_def headers_append_def non_cacheable_def)
  from n have len: "length doc = length (indexHtml options)"
    by simp
  from doc f e len m m' show ?thesis
    by (intro exI [of _ doc]) simp
qed

text \<open>
  The callback answers \<^verbatim>\<open>undefined\<close>: the response is the static one, with the
  modification time of the template, and both markers are as the template has them.
\<close>

theorem ssr_not_run_witness:
  "ssrHandler (options_for [home_route] False (Some silent_callback)) = Some silent_callback \<and>
   initSSR example_platform (request_for ''/'') []
      (routes (options_for [home_route] False (Some silent_callback))) =
     Inr (req_url (request_for ''/''), [home_module Undefined None]) \<and>
   first_redirect [home_module Undefined None] = None \<and>
   silent_callback \<lparr>ssr_url = req_url (request_for ''/''), modules = [home_module Undefined None],
                     headCollection = []\<rparr> = (Returned Undefined, []) \<and>
   (\<exists>doc. fetch example_platform (request_for ''/'') []
             (options_for [home_route] False (Some silent_callback)) =
           Inr \<lparr>status = 200,
                headers = [(''Content-Type'', ''text/html; charset=utf-8''),
                           (''Last-Modified'', ''Thu, 01 Jan 2026 00:00:00 GMT''),
                           (''Cache-Control'', ''public, max-age=0, must-revalidate'')],
                body = Document doc\<rparr> \<and>
          length doc = 5 \<and>
          doc ! 2 = element_of (''ssr-head'', []) \<and>
          doc ! 4 = element_of (''ssr-body'', []))"
proof -
  let ?options = "options_for [home_route] False (Some silent_callback)"
  let ?ms = "[home_module Undefined None]"
  have h1: "ssrHandler ?options = Some silent_callback"
    by (simp add: options_for_def)
  have h2: "initSSR example_platform (request_for ''/'') [] (routes ?options) =
      Inr (req_url (request_for ''/''), ?ms)"
    by (simp add: example_fetch_defs example_route_defs example_load_defs example_match_defs)
  have h3: "first_redirect ?ms = None"
    by (simp add: home_module_def)
  have h4: "silent_callback \<lparr>ssr_url = req_url (request_for ''/''), modules = ?ms,
      headCollection = []\<rparr> = (Returned Undefined, [])"
    by (simp add: silent_callback_def)
  have h5: "\<forall>out. Undefined \<noteq> String out"
    by simp
  have hyp: "ssrHandler ?options = None \<or>
           (\<exists>callback u ms v pushed.
              ssrHandler ?options = Some callback \<and>
              initSSR example_platform (request_for ''/'') [] (routes ?options) = Inr (u, ms) \<and>
              first_redirect ms = None \<and>
              callback \<lparr>ssr_url = u, modules = ms, headCollection = []\<rparr> = (Returned v, pushed) \<and>
              (\<forall>out. v \<noteq> String out))"
    using h1 h2 h3 h4 h5 by blast
  have t: "length (indexHtml ?options) = 5" "indexHtml ?options ! 2 = (''ssr-head'', [])"
    "indexHtml ?options ! 4 = (''ssr-body'', [])" "customHTMLRewriter ?options = []"
    by (simp_all add: options_for_def template_def)
  have l: "lstat_mtime example_platform = Inr (Some ''Thu, 01 Jan 2026 00:00:00 GMT'')"
    "headers_get (req_headers (request_for ''/'')) ''If-Modified-Since'' = None"
    by (simp_all add: example_platform_def request_for_def headers_get_def)
  from ssr_not_run [OF hyp] obtain doc where
    f: "fetch example_platform (request_for ''/'') [] ?options =
             (case lstat_mtime example_platform of
                Inl e \<Rightarrow> Inl e
              | Inr None \<Rightarrow>
                  Inr \<lparr>status = 200,
                       headers = [(''Content-Type'', ''text/html; charset=utf-8''),
                                  (''Cache-Control'', ''public, max-age=0, must-revalidate'')],
                       body = Document doc\<rparr>
              | Inr (Some mtimeUTC) \<Rightarrow>
                  if headers_get (req_headers (request_for ''/'')) ''If-Modified-Since'' = Some mtimeUTC
                  then Inr \<lparr>status = 304, headers = [], body = NoBody\<rparr>
                  else Inr \<lparr>status = 200,
                            headers = [(''Content-Type'', ''text/html; charset=utf-8''),
                                       (''Last-Modified'', mtimeUTC),
                                       (''Cache-Control'', ''public, max-age=0, must-revalidate'')],
                            body = Document doc\<rparr>)"
    and len: "length doc = length (indexHtml ?options)"
    and m: "\<forall>i<length (indexHtml ?options).
              fst (indexHtml ?options ! i) = ''ssr-head'' \<or> fst (indexHtml ?options ! i) = ''ssr-body'' \<longrightarrow>
                ((\<forall>c\<in>set (customHTMLRewriter ?options). \<not> fst c (element_of (indexHtml ?options ! i))) \<longrightarrow>
                   doc ! i = element_of (indexHtml ?options ! i))"
    by blast
  from f l have f': "fetch example_platform (request_for ''/'') [] ?options =
     Inr \<lparr>status = 200,
          headers = [(''Content-Type'', ''text/html; charset=utf-8''),
                     (''Last-Modified'', ''Thu, 01 Jan 2026 00:00:00 GMT''),
                     (''Cache-Control'', ''public, max-age=0, must-revalidate'')],
          body = Document doc\<rparr>"
    by simp
  from m [rule_format, of 2] t have m2: "doc ! 2 = element_of (''ssr-head'', [])"
    by simp
  from m [rule_format, of 4] t have m4: "doc ! 4 = element_of (''ssr-body'', [])"
    by simp
  from len t have "length doc = 5"
    by simp
  with h1 h2 h3 h4 f' m2 m4 show ?thesis
    by blast
qed

text \<open>
  C10 as the claim words it fails in its frame.  No render callback is supplied, but
  the caller has bound a handler of its own to \<^verbatim>\<open>ssr-body\<close>: that handler is registered
  and runs, and the body marker of the output carries its edit.
\<close>

theorem ssr_not_run_counterexample:
  "ssrHandler custom_options = None \<and>
   length (customHTMLRewriter custom_options) = 1 \<and>
   fst (hd (customHTMLRewriter custom_options)) (element_of (''ssr-body'', [])) \<and>
   indexHtml custom_options ! 4 = (''ssr-body'', []) \<and>
   edits_of (fetch example_platform (request_for ''/'') [] custom_options) ! 4 =
     (''ssr-body'', [Replace ''<p>loading</p>'']) \<and>
   mutations (element_of (''ssr-body'', [])) = []"
  by (simp add: edits_of_def example_fetch_defs example_route_defs example_load_defs
                example_match_defs commonHandler_def append_content_def)

subsection \<open>Cache policy\<close>

lemma number_less_total:
  "a \<noteq> NaN \<Longrightarrow> b \<noteq> NaN \<Longrightarrow> \<not> number_less a b \<Longrightarrow> \<not> number_less b a \<Longrightarrow> a = b"
  by (cases a; cases b) auto

lemma number_less_trans:
  "number_less a b \<Longrightarrow> number_less b c \<Longrightarrow> number_less a c"
  by (cases a; cases b; cases c) auto

lemma number_less_asym: "number_less a b \<Longrightarrow> \<not> number_less b a"
  by (cases a; cases b) auto

lemma Math_min_not_NaN: "NaN \<notin> set xs \<Longrightarrow> Math_min xs \<noteq> NaN"
  by (induction xs) auto

lemma Math_min_least:
  "NaN \<notin> set xs \<Longrightarrow> t \<in> set xs \<Longrightarrow> \<not> number_less t (Math_min xs)"
proof (induction xs)
  case Nil
  then show ?case by simp
next
  case (Cons x xs)
  have nn: "Math_min xs \<noteq> NaN" "x \<noteq> NaN"
    using Cons.prems(1) by (auto simp: Math_min_not_NaN)
  show ?case
  proof (cases "number_less (Math_min xs) x")
    case True
    then have m: "Math_min (x # xs) = Math_min xs"
      using nn by simp
    show ?thesis
    proof (cases "t = x")
      case True
      with \<open>number_less (Math_min xs) x\<close> m show ?thesis
        by (simp add: number_less_asym)
    next
      case False
      with Cons m show ?thesis by auto
    qed
  next
    case False
    then have m: "Math_min (x # xs) = x"
      using nn by simp
    show ?thesis
    proof (cases "t = x")
      case True
      with m show ?thesis by (cases x) auto
    next
      case False
      with Cons.prems have t: "t \<in> set xs" by simp
      with Cons have le: "\<not> number_less t (Math_min xs)" by simp
      show ?thesis
      proof
        assume "number_less t (Math_min (x # xs))"
        with m have tx: "number_less t x" by simp
        have "t \<noteq> NaN" using t Cons.prems(1) by auto
        from number_less_total [OF this nn(1) le] have "number_less (Math_min xs) t \<or> t = Math_min xs"
          by auto
        with tx \<open>\<not> number_less (Math_min xs) x\<close> show False
          by (auto dest: number_less_trans)
      qed
    qed
  qed
qed

lemma Math_min_mem: "xs \<noteq> [] \<Longrightarrow> NaN \<notin> set xs \<Longrightarrow> Math_min xs \<in> set xs"
proof (induction xs)
  case Nil
  then show ?case by simp
next
  case (Cons x xs)
  show ?case
  proof (cases "xs = []")
    case True
    then show ?thesis using Cons.prems by (cases x) auto
  next
    case False
    with Cons have "Math_min xs \<in> set xs" by simp
    then show ?thesis using Cons.prems by (auto simp: Math_min_not_NaN)
  qed
qed


lemma Math_min_set:
  assumes "set xs = set ys" and "xs \<noteq> []" and "NaN \<notin> set xs"
  shows "Math_min xs = Math_min ys"
proof -
  have ys: "ys \<noteq> []" "NaN \<notin> set ys"
    using assms by auto
  have a: "Math_min xs \<in> set ys" "Math_min ys \<in> set xs"
    using Math_min_mem [OF assms(2,3)] Math_min_mem [OF ys] assms(1) by auto
  have "\<not> number_less (Math_min xs) (Math_min ys)"
    using Math_min_least [OF ys(2) a(1)] .
  moreover have "\<not> number_less (Math_min ys) (Math_min xs)"
    using Math_min_least [OF assms(3) a(2)] .
  ultimately show ?thesis
    using number_less_total Math_min_not_NaN [OF assms(3)] Math_min_not_NaN [OF ys(2)]
    by blast
qed

lemma positive_ttl_iff:
  "positive_ttl v \<longleftrightarrow> (\<exists>x. v = Number x \<and> x \<noteq> NaN \<and> number_less (Finite 0) x)"
  by (cases v) (auto simp: positive_ttl_def)

lemma ttls_of_mem:
  "x \<in> set (ttls_of ms) \<longleftrightarrow>
     x \<noteq> NaN \<and> number_less (Finite 0) x \<and> (\<exists>m\<in>set ms. dataCacheTtl m = Number x)"
proof
  assume "x \<in> set (ttls_of ms)"
  then obtain m where m: "m \<in> set ms" "positive_ttl (dataCacheTtl m)" "x = to_Number (dataCacheTtl m)"
    by (auto simp: ttls_of_def)
  from m(2) obtain y where "dataCacheTtl m = Number y" "y \<noteq> NaN" "number_less (Finite 0) y"
    by (auto simp: positive_ttl_iff)
  with m show "x \<noteq> NaN \<and> number_less (Finite 0) x \<and> (\<exists>m\<in>set ms. dataCacheTtl m = Number x)"
    by auto
next
  assume "x \<noteq> NaN \<and> number_less (Finite 0) x \<and> (\<exists>m\<in>set ms. dataCacheTtl m = Number x)"
  then obtain m where m: "m \<in> set ms" "dataCacheTtl m = Number x" "x \<noteq> NaN" "number_less (Finite 0) x"
    by auto
  then have "positive_ttl (dataCacheTtl m)" "to_Number (dataCacheTtl m) = x"
    by (auto simp: positive_ttl_iff)
  with m(1) show "x \<in> set (ttls_of ms)"
    by (force simp: ttls_of_def)
qed

lemma ttls_of_mset: "mset ms' = mset ms \<Longrightarrow> mset (ttls_of ms') = mset (ttls_of ms)"
  by (simp add: ttls_of_def)

lemma ttls_of_values:
  "ttls_of ms = map to_Number (filter positive_ttl (map dataCacheTtl ms))"
  by (simp add: ttls_of_def filter_map comp_def)

lemma cache_control_example:
  assumes "mset (map dataCacheTtl ms) = {#Number (Finite 30), Number (Finite 10), Number (Finite 20)#}"
  shows "cache_control P ms = ''public, max-age=10''"
proof -
  have "mset (ttls_of ms) =
      image_mset to_Number (filter_mset positive_ttl (mset (map dataCacheTtl ms)))"
    by (simp only: ttls_of_values mset_map mset_filter)
  also have "\<dots> = {#Finite 30, Finite 10, Finite 20#}"
    by (simp only: assms) (simp add: positive_ttl_def)
  finally have m: "mset (ttls_of ms) = mset [Finite 30, Finite 10, Finite 20]"
    by simp
  then have len: "length (ttls_of ms) = 3"
    using mset_eq_length by fastforce
  from m have st: "set (ttls_of ms) = set [Finite 30, Finite 10, Finite 20]"
    by (rule mset_eq_setD)
  from len have ne: "ttls_of ms \<noteq> []"
    by auto
  have nan: "NaN \<notin> set (ttls_of ms)"
    by (simp add: ttls_of_mem)
  have "Math_min (ttls_of ms) = Math_min [Finite 30, Finite 10, Finite 20]"
    using Math_min_set [OF st ne nan] .
  also have "\<dots> = Finite 10"
    by simp
  finally show ?thesis
    using len by (simp add: cache_control_def number_toString_def show_nat.simps)
qed

lemma cache_control_mset:
  assumes "mset ms' = mset ms"
  shows "cache_control P ms' = cache_control P ms"
proof -
  from ttls_of_mset [OF assms] have m: "mset (ttls_of ms') = mset (ttls_of ms)" .
  then have len: "length (ttls_of ms') = length (ttls_of ms)"
    by (rule mset_eq_length)
  from m have st: "set (ttls_of ms') = set (ttls_of ms)"
    by (rule mset_eq_setD)
  have nan: "NaN \<notin> set (ttls_of ms')"
    by (simp add: ttls_of_mem)
  show ?thesis
  proof (cases "length (ttls_of ms) > 1")
    case True
    then have "ttls_of ms' \<noteq> []" using len by auto
    from Math_min_set [OF st this nan] True len show ?thesis
      by (simp add: cache_control_def)
  next
    case False
    show ?thesis
    proof (cases "length (ttls_of ms) = 1")
      case True
      then obtain t where t: "ttls_of ms = [t]"
        by (cases "ttls_of ms") auto
      with m have "ttls_of ms' = [t]"
        by simp
      with t show ?thesis by (simp add: cache_control_def)
    next
      case False
      with \<open>\<not> 1 < length (ttls_of ms)\<close> len show ?thesis
        by (simp add: cache_control_def)
    qed
  qed
qed

text \<open>
  C2.  The TTLs that count are the values of \<^verbatim>\<open>dataCacheTtl\<close> that are numbers, not \<^verbatim>\<open>NaN\<close>
  and greater than zero, one per module that has such a value.  With more than one, the
  header value is \<^verbatim>\<open>public, max-age=\<close> followed by their minimum; with exactly one, by
  that one; with none, it is \<^verbatim>\<open>public, max-age=0, must-revalidate\<close>.  The value is the
  same for every reordering of the modules; the TTLs 30, 10 and 20, in any order, give
  \<^verbatim>\<open>public, max-age=10\<close>.  A response of \<^verbatim>\<open>fetch\<close> whose render callback returned a string and
  whose styles were collected carries exactly this value as its \<^verbatim>\<open>Cache-Control\<close>.
\<close>

theorem cache_policy:
  "(\<forall>x. x \<in> set (ttls_of ms) \<longleftrightarrow>
        x \<noteq> NaN \<and> number_less (Finite 0) x \<and> (\<exists>m\<in>set ms. dataCacheTtl m = Number x)) \<and>
   (length (ttls_of ms) > 1 \<longrightarrow>
      (\<exists>t\<in>set (ttls_of ms). (\<forall>t'\<in>set (ttls_of ms). \<not> number_less t' t) \<and>
         cache_control P ms = ''public, max-age='' @ number_toString P t)) \<and>
   (\<forall>t. ttls_of ms = [t] \<longrightarrow> cache_control P ms = ''public, max-age='' @ number_toString P t) \<and>
   (ttls_of ms = [] \<longrightarrow> cache_control P ms = ''public, max-age=0, must-revalidate'') \<and>
   (\<forall>ms'. mset ms' = mset ms \<longrightarrow> cache_control P ms' = cache_control P ms) \<and>
   (mset (map dataCacheTtl ms) = {#Number (Finite 30), Number (Finite 10), Number (Finite 20)#} \<longrightarrow>
      cache_control P ms = ''public, max-age=10'') \<and>
   (\<forall>options callback req ctx u out pushed styles.
      ssrHandler options = Some callback \<and>
      initSSR P req ctx (routes options) = Inr (u, ms) \<and>
      first_redirect ms = None \<and>
      callback \<lparr>ssr_url = u, modules = ms, headCollection = []\<rparr> = (Returned (String out), pushed) \<and>
      collect_styles P (isDev options) ms = Inr styles \<longrightarrow>
      (\<exists>doc. fetch P req ctx options =
         Inr \<lparr>status = 200,
              headers = [(''Content-Type'', ''text/html; charset=utf-8''),
                         (''Cache-Control'', cache_control P ms)],
              body = Document doc\<rparr>))"
proof (intro conjI allI impI)
  fix x
  show "x \<in> set (ttls_of ms) \<longleftrightarrow>
        x \<noteq> NaN \<and> number_less (Finite 0) x \<and> (\<exists>m\<in>set ms. dataCacheTtl m = Number x)"
    by (rule ttls_of_mem)
next
  assume l: "length (ttls_of ms) > 1"
  have nan: "NaN \<notin> set (ttls_of ms)"
    by (simp add: ttls_of_mem)
  from l have ne: "ttls_of ms \<noteq> []"
    by auto
  have "Math_min (ttls_of ms) \<in> set (ttls_of ms)"
    using Math_min_mem [OF ne nan] .
  moreover have "\<forall>t'\<in>set (ttls_of ms). \<not> number_less t' (Math_min (ttls_of ms))"
    using Math_min_least [OF nan] by blast
  moreover have "cache_control P ms = ''public, max-age='' @ number_toString P (Math_min (ttls_of ms))"
    using l by (simp add: cache_control_def)
  ultimately show "\<exists>t\<in>set (ttls_of ms). (\<forall>t'\<in>set (ttls_of ms). \<not> number_less t' t) \<and>
         cache_control P ms = ''public, max-age='' @ number_toString P t"
    by blast
next
  fix t
  assume "ttls_of ms = [t]"
  then show "cache_control P ms = ''public, max-age='' @ number_toString P t"
    by (simp add: cache_control_def)
next
  assume "ttls_of ms = []"
  then show "cache_control P ms = ''public, max-age=0, must-revalidate''"
    by (simp add: cache_control_def)
next
  fix ms'
  assume "mset ms' = mset ms"
  then show "cache_control P ms' = cache_control P ms"
    by (rule cache_control_mset)
next
  assume "mset (map dataCacheTtl ms) = {#Number (Finite 30), Number (Finite 10), Number (Finite 20)#}"
  then show "cache_control P ms = ''public, max-age=10''"
    by (rule cache_control_example)
next
  fix options :: RenderOptions and callback req ctx u out pushed styles
  assume "ssrHandler options = Some callback \<and>
      initSSR P req ctx (routes options) = Inr (u, ms) \<and>
      first_redirect ms = None \<and>
      callback \<lparr>ssr_url = u, modules = ms, headCollection = []\<rparr> = (Returned (String out), pushed) \<and>
      collect_styles P (isDev options) ms = Inr styles"
  then have h: "ssrHandler options = Some callback"
      "initSSR P req ctx (routes options) = Inr (u, ms)"
      "first_redirect ms = None"
      "callback \<lparr>ssr_url = u, modules = ms, headCollection = []\<rparr> = (Returned (String out), pushed) \<and>
       collect_styles P (isDev options) ms = Inr styles"
    by simp_all
  from fetch_rendered [OF h] show "\<exists>doc. fetch P req ctx options =
         Inr \<lparr>status = 200,
              headers = [(''Content-Type'', ''text/html; charset=utf-8''),
                         (''Cache-Control'', cache_control P ms)],
              body = Document doc\<rparr>"
    by blast
qed

text \<open>Three modules with the TTLs 30, 10 and 20: the header value is \<^verbatim>\<open>public, max-age=10\<close>.\<close>

theorem cache_policy_witness:
  "mset (map dataCacheTtl
      [home_module (Number (Finite 30)) None, home_module (Number (Finite 10)) None,
       home_module (Number (Finite 20)) None]) =
     {#Number (Finite 30), Number (Finite 10), Number (Finite 20)#} \<and>
   length (ttls_of
      [home_module (Number (Finite 30)) None, home_module (Number (Finite 10)) None,
       home_module (Number (Finite 20)) None]) > 1 \<and>
   cache_control example_platform
      [home_module (Number (Finite 30)) None, home_module (Number (Finite 10)) None,
       home_module (Number (Finite 20)) None] = ''public, max-age=10''"
proof -
  let ?ms = "[home_module (Number (Finite 30)) None, home_module (Number (Finite 10)) None,
       home_module (Number (Finite 20)) None]"
  have h: "mset (map dataCacheTtl ?ms) = {#Number (Finite 30), Number (Finite 10), Number (Finite 20)#}"
    by (simp add: home_module_def)
  have l: "length (ttls_of ?ms) > 1"
    by (simp add: ttls_of_def positive_ttl_def home_module_def)
  from cache_policy [of ?ms example_platform] h have "cache_control example_platform ?ms = ''public, max-age=10''"
    by blast
  with h l show ?thesis
    by blast
qed

subsection \<open>The handler shared by head and body\<close>

text \<open>
  C8 at a production pass.  With \<^verbatim>\<open>isDev\<close> false and one route in the table, the shared
  handler never sets its flag: it runs for the \<^verbatim>\<open>head\<close> element and again for the \<^verbatim>\<open>body\<close>
  element, and the route manifest is appended to both.
\<close>

theorem route_manifest_appended_twice:
  "edits_of (fetch example_platform (request_for ''/'') [] (options_for [home_route] False None)) =
     [(''html'', []),
      (''head'', [Append (route_manifest example_platform [home_route])]),
      (''ssr-head'', []),
      (''body'', [Append (route_manifest example_platform [home_route])]),
      (''ssr-body'', [])]"
  by (simp add: edits_of_def example_fetch_defs example_load_defs commonHandler_def
                append_content_def)

end
